theory Spec2Isabelle
  imports Complex_Main "HOL-Library.Sublist"
begin

section \<open>Data model (shared/schema.ts)\<close>

text \<open>
  JavaScript numbers are modelled by rationals extended with the two infinities;
  \<open>NaN\<close> is the value \<open>None\<close> of type \<open>number\<close>. A rational stands for the double
  of that value. The arithmetic of the adapters and of the spread detector is taken exact;
  the complement \<open>1 - newPrice\<close> of the live feed, whose rounding decides the stored
  price, is rounded to a double (\<open>js_sub\<close> below).
\<close>

datatype jsnum = Fin rat | PosInf | NegInf

type_synonym number = "jsnum option"

datatype Platform = Polymarket | Kalshi

datatype Category = Trending | Politics | Crypto | Sports | Economy | Tech

text \<open>
  The canonical market record. The two prices are finite numbers: every place of the
  source that writes them (the adapters' clamp, the static fallback list and the live-feed
  patch behind its range guard) writes a finite value.
\<close>

record Market =
  market_id :: string
  title :: string
  description :: string
  platform :: Platform
  category :: Category
  yesPrice :: rat
  noPrice :: rat
  volume :: jsnum
  resolutionDate :: string

datatype SpreadDirection = polymarket_higher | kalshi_higher

datatype Confidence = High | Medium | Low

record SpreadOpportunity =
  spread_id :: string
  spread_title :: string
  polymarketId :: "string option"
  kalshiId :: "string option"
  polymarketYesPrice :: "rat option"
  kalshiYesPrice :: "rat option"
  spreadPercent :: rat
  spreadDirection :: SpreadDirection
  combinedVolume :: number
  spread_category :: Category
  spread_resolutionDate :: string
  confidence :: Confidence
  detectedAt :: string

section \<open>JavaScript primitives used by the source\<close>

text \<open>\<open>a + b\<close> on numbers: \<open>NaN\<close> is absorbing and \<open>Infinity + -Infinity\<close> is \<open>NaN\<close>.\<close>

fun js_add :: "number \<Rightarrow> number \<Rightarrow> number" where
  "js_add (Some (Fin a)) (Some (Fin b)) = Some (Fin (a + b))"
| "js_add (Some PosInf) (Some NegInf) = None"
| "js_add (Some NegInf) (Some PosInf) = None"
| "js_add (Some PosInf) (Some _) = Some PosInf"
| "js_add (Some NegInf) (Some _) = Some NegInf"
| "js_add (Some (Fin _)) (Some b) = Some b"
| "js_add _ _ = None"

text \<open>\<open>a / c\<close> for a positive finite constant \<open>c\<close> (the source divides by 2 and by 100).\<close>

fun js_div_const :: "number \<Rightarrow> rat \<Rightarrow> number" where
  "js_div_const (Some (Fin a)) c = Some (Fin (a / c))"
| "js_div_const x c = x"

text \<open>\<open>x || d\<close> on numbers: \<open>NaN\<close> and zero are falsy. The default of every such
  expression in the source is not \<open>NaN\<close>, hence neither is the result.\<close>

fun js_or :: "number \<Rightarrow> jsnum \<Rightarrow> jsnum" where
  "js_or None d = d"
| "js_or (Some (Fin a)) d = (if a = 0 then d else Fin a)"
| "js_or (Some x) d = x"


text \<open>\<open>Math.round\<close> rounds to the nearest integer, halves towards \<open>+Infinity\<close>.\<close>

definition Math_round :: "rat \<Rightarrow> rat" where
  "Math_round x = of_int \<lfloor>x + 1 / 2\<rfloor>"


text \<open>
  Rounding of an exact value to a double (IEEE 754 binary64, to nearest, ties to even),
  for a result in the normal range: \<open>binaryExponent x\<close> is the \<open>e\<close> with
  \<open>2 ^ (e - 1) \<le> x < 2 ^ e\<close>, found by halving or doubling, and the value is rounded to a
  multiple of \<open>2 ^ (e - 53)\<close>, which leaves 53 significant bits.
\<close>

definition roundHalfEven :: "rat \<Rightarrow> int" where
  "roundHalfEven y =
     (let f = \<lfloor>y\<rfloor>; d = y - of_int f
      in if d < 1 / 2 then f else if d > 1 / 2 then f + 1 else if even f then f else f + 1)"

function doublings :: "rat \<Rightarrow> nat" where
  "doublings x = (if 0 < x \<and> x < 1 / 2 then Suc (doublings (2 * x)) else 0)"
  by pat_completeness auto
termination
proof (relation "measure (\<lambda>x. nat \<lfloor>1 / x\<rfloor>)")
  show "wf (measure (\<lambda>x. nat \<lfloor>1 / x\<rfloor>))" by simp
next
  fix x :: rat
  assume a: "0 < x \<and> x < 1 / 2"
  define y where "y = 1 / x"
  from a have "2 < y" by (simp add: y_def field_simps)
  then have pos: "1 \<le> \<lfloor>y\<rfloor>" by (simp add: le_floor_iff)
  have "y < of_int \<lfloor>y\<rfloor> + 1" by linarith
  with pos have "y / 2 < of_int \<lfloor>y\<rfloor>" by linarith
  then have less: "\<lfloor>y / 2\<rfloor> < \<lfloor>y\<rfloor>" by (simp add: floor_less_iff)
  have "1 / (2 * x) = y / 2" by (simp add: y_def)
  with less pos show "(2 * x, x) \<in> measure (\<lambda>x. nat \<lfloor>1 / x\<rfloor>)"
    by (simp add: y_def mult.commute)
qed

function halvings :: "rat \<Rightarrow> nat" where
  "halvings x = (if 1 \<le> x then Suc (halvings (x / 2)) else 0)"
  by pat_completeness auto
termination
proof (relation "measure (\<lambda>x. nat \<lfloor>x\<rfloor>)")
  show "wf (measure (\<lambda>x. nat \<lfloor>x\<rfloor>))" by simp
next
  fix x :: rat
  assume a: "1 \<le> x"
  then have pos: "1 \<le> \<lfloor>x\<rfloor>" by (simp add: le_floor_iff)
  have "x < of_int \<lfloor>x\<rfloor> + 1" by linarith
  with pos have "x / 2 < of_int \<lfloor>x\<rfloor>" by linarith
  then have "\<lfloor>x / 2\<rfloor> < \<lfloor>x\<rfloor>" by (simp add: floor_less_iff)
  with pos show "(x / 2, x) \<in> measure (\<lambda>x. nat \<lfloor>x\<rfloor>)" by simp
qed

declare doublings.simps [simp del] halvings.simps [simp del]

definition binaryExponent :: "rat \<Rightarrow> int" where
  "binaryExponent x = (if 1 \<le> x then int (halvings x) else - int (doublings x))"

definition roundDouble :: "rat \<Rightarrow> rat" where
  "roundDouble x =
     (if x = 0 then 0
      else (let ulp = 2 powi (binaryExponent \<bar>x\<bar> - 53)
            in of_int (roundHalfEven (x / ulp)) * ulp))"

text \<open>\<open>a - b\<close> on doubles: the exact difference, rounded.\<close>

definition js_sub :: "rat \<Rightarrow> rat \<Rightarrow> rat" where
  "js_sub a b = roundDouble (a - b)"

text \<open>\<open>Math.max(0.01, Math.min(0.99, x))\<close> for \<open>x\<close> other than \<open>NaN\<close>.\<close>

fun clampPrice :: "jsnum \<Rightarrow> rat" where
  "clampPrice (Fin a) = max (1 / 100) (min (99 / 100) a)"
| "clampPrice PosInf = 99 / 100"
| "clampPrice NegInf = 1 / 100"

text \<open>
  Strings are lists of 8-bit characters. \<open>toLowerCase\<close> is modelled on the ASCII letters;
  every other character is removed by the filter that follows it in \<open>normalizeTitle\<close>,
  or is only searched for lower-case ASCII keywords.
\<close>

definition toLowerChar :: "char \<Rightarrow> char" where
  "toLowerChar c =
     (case map_of (zip ''ABCDEFGHIJKLMNOPQRSTUVWXYZ'' ''abcdefghijklmnopqrstuvwxyz'') c of
        Some d \<Rightarrow> d
      | None \<Rightarrow> c)"

definition toLowerCase :: "string \<Rightarrow> string" where
  "toLowerCase s = map toLowerChar s"

text \<open>The class \<open>[a-z0-9]\<close> and the class \<open>\s\<close> restricted to 8-bit characters.\<close>

definition isAlnumLower :: "char \<Rightarrow> bool" where
  "isAlnumLower c \<longleftrightarrow> c \<in> set ''abcdefghijklmnopqrstuvwxyz0123456789''"

definition isSpace :: "char \<Rightarrow> bool" where
  "isSpace c \<longleftrightarrow>
     c \<in> set [CHR 0x09, CHR 0x0A, CHR 0x0B, CHR 0x0C, CHR 0x0D, CHR 0x20, CHR 0xA0]"

text \<open>\<open>s.replace(/\s+/g, " ")\<close>: every maximal run of white space becomes one blank.\<close>

fun collapseSpaces :: "string \<Rightarrow> string" where
  "collapseSpaces [] = []"
| "collapseSpaces [c] = (if isSpace c then [CHR 0x20] else [c])"
| "collapseSpaces (c # d # cs) =
     (if isSpace c then
        (if isSpace d then collapseSpaces (d # cs) else CHR 0x20 # collapseSpaces (d # cs))
      else c # collapseSpaces (d # cs))"

definition trim :: "string \<Rightarrow> string" where
  "trim s = rev (dropWhile isSpace (rev (dropWhile isSpace s)))"

text \<open>\<open>s.split(" ")\<close>: the empty string splits into one empty word.\<close>

fun split_blank :: "string \<Rightarrow> string list" where
  "split_blank [] = [[]]"
| "split_blank (c # cs) =
     (if c = CHR 0x20 then [] # split_blank cs
      else (case split_blank cs of
              [] \<Rightarrow> [[c]]
            | w # ws \<Rightarrow> (c # w) # ws))"

text \<open>\<open>hay.includes(needle)\<close>.\<close>

fun starts_with :: "string \<Rightarrow> string \<Rightarrow> bool" where
  "starts_with s [] = True"
| "starts_with [] (n # ns) = False"
| "starts_with (c # cs) (n # ns) = (c = n \<and> starts_with cs ns)"

fun includes_str :: "string \<Rightarrow> string \<Rightarrow> bool" where
  "includes_str [] needle = (needle = [])"
| "includes_str (c # cs) needle = (starts_with (c # cs) needle \<or> includes_str cs needle)"

text \<open>The decimal rendering of an index inside a template string.\<close>

fun show_nat :: "nat \<Rightarrow> string" where
  "show_nat n =
     (if n < 10 then [''0123456789'' ! n]
      else show_nat (n div 10) @ [''0123456789'' ! (n mod 10)])"

declare show_nat.simps [simp del]

section \<open>Cross-source matcher (server/api-clients.ts)\<close>

record MarketSimilarity =
  polymarket :: "Market option"
  kalshi :: "Market option"
  similarity :: rat

definition normalizeTitle :: "string \<Rightarrow> string" where
  "normalizeTitle t =
     trim (collapseSpaces (filter (\<lambda>c. isAlnumLower c \<or> isSpace c) (toLowerCase t)))"

text \<open>
  \<open>intersection\<close> is the array \<open>words1.filter(x => set2.has(x))\<close>, which keeps the
  repetitions of \<open>words1\<close>; \<open>unionSet\<close> is a set, whose size counts distinct words.
\<close>

definition calculateSimilarity :: "string \<Rightarrow> string \<Rightarrow> rat" where
  "calculateSimilarity title1 title2 =
     (let norm1 = normalizeTitle title1;
          norm2 = normalizeTitle title2;
          words1 = split_blank norm1;
          words2 = split_blank norm2;
          intersection = filter (\<lambda>x. x \<in> set words2) words1;
          unionSet = remdups (words1 @ words2)
      in of_nat (length intersection) / of_nat (length unionSet))"

text \<open>The inner loop over the source-B records: the best unclaimed candidate above 0.3.\<close>

fun bestMatchLoop ::
  "Market \<Rightarrow> string set \<Rightarrow> Market list \<Rightarrow> (Market \<times> rat) option \<Rightarrow> (Market \<times> rat) option"
where
  "bestMatchLoop pm usedKalshi [] bestMatch = bestMatch"
| "bestMatchLoop pm usedKalshi (kl # kls) bestMatch =
     (if market_id kl \<in> usedKalshi then bestMatchLoop pm usedKalshi kls bestMatch
      else
        (let sim = calculateSimilarity (title pm) (title kl) in
         if sim > 3 / 10 \<and> (case bestMatch of None \<Rightarrow> True | Some (_, best) \<Rightarrow> sim > best)
         then bestMatchLoop pm usedKalshi kls (Some (kl, sim))
         else bestMatchLoop pm usedKalshi kls bestMatch))"

text \<open>The outer loop over the source-A records, threading \<open>usedKalshi\<close> and \<open>matches\<close>.\<close>

fun matchLoop ::
  "Market list \<Rightarrow> Market list \<Rightarrow> string set \<Rightarrow> MarketSimilarity list \<Rightarrow> MarketSimilarity list"
where
  "matchLoop [] kalshiMarkets usedKalshi matches = matches"
| "matchLoop (pm # pms) kalshiMarkets usedKalshi matches =
     (case bestMatchLoop pm usedKalshi kalshiMarkets None of
        None \<Rightarrow> matchLoop pms kalshiMarkets usedKalshi matches
      | Some (kl, sim) \<Rightarrow>
          (if sim > 4 / 10
           then matchLoop pms kalshiMarkets (insert (market_id kl) usedKalshi)
                  (matches @ [\<lparr>polymarket = Some pm, kalshi = Some kl, similarity = sim\<rparr>])
           else matchLoop pms kalshiMarkets usedKalshi matches))"

definition findMatchingMarkets :: "Market list \<Rightarrow> MarketSimilarity list" where
  "findMatchingMarkets markets =
     (let polymarketMarkets = filter (\<lambda>m. platform m = Polymarket) markets;
          kalshiMarkets = filter (\<lambda>m. platform m = Kalshi) markets
      in matchLoop polymarketMarkets kalshiMarkets {} [])"

section \<open>Market cache of the REST layer (server/api-clients.ts)\<close>

definition fallbackMarkets :: "Market list" where
  "fallbackMarkets =
     [\<lparr>market_id = ''pm-fallback-1'',
        title = ''Will the US Federal Reserve cut interest rates in Q1 2025?'',
        description = ''This market resolves YES if the Federal Reserve announces a federal funds rate cut during Q1 2025.'',
        platform = Polymarket, category = Economy, yesPrice = 42 / 100, noPrice = 58 / 100,
        volume = Fin 2450000, resolutionDate = ''2025-03-31''\<rparr>,
      \<lparr>market_id = ''kl-fallback-1'',
        title = ''Will there be a government shutdown before March 2025?'',
        description = ''Resolves YES if a federal government shutdown occurs lasting at least 24 hours.'',
        platform = Kalshi, category = Politics, yesPrice = 28 / 100, noPrice = 72 / 100,
        volume = Fin 890000, resolutionDate = ''2025-03-01''\<rparr>,
      \<lparr>market_id = ''pm-fallback-2'',
        title = ''Will Bitcoin reach $150,000 by end of 2025?'',
        description = ''Resolves YES if BTC/USD reaches $150,000 on any major exchange before December 31, 2025.'',
        platform = Polymarket, category = Crypto, yesPrice = 35 / 100, noPrice = 65 / 100,
        volume = Fin 5800000, resolutionDate = ''2025-12-31''\<rparr>,
      \<lparr>market_id = ''kl-fallback-2'',
        title = ''Will the Kansas City Chiefs win Super Bowl LIX?'',
        description = ''Resolves YES if the Kansas City Chiefs win Super Bowl LIX.'',
        platform = Kalshi, category = Sports, yesPrice = 22 / 100, noPrice = 78 / 100,
        volume = Fin 4500000, resolutionDate = ''2025-02-09''\<rparr>,
      \<lparr>market_id = ''pm-fallback-3'',
        title = ''Will OpenAI release GPT-5 in 2025?'',
        description = ''Resolves YES if OpenAI publicly releases a model called GPT-5 or equivalent.'',
        platform = Polymarket, category = Tech, yesPrice = 65 / 100, noPrice = 35 / 100,
        volume = Fin 4100000, resolutionDate = ''2025-12-31''\<rparr>,
      \<lparr>market_id = ''kl-fallback-3'',
        title = ''Will US inflation fall below 2% in 2025?'',
        description = ''Resolves YES if the US CPI year-over-year reading falls below 2% at any point in 2025.'',
        platform = Kalshi, category = Economy, yesPrice = 31 / 100, noPrice = 69 / 100,
        volume = Fin 1890000, resolutionDate = ''2025-12-31''\<rparr>]"

definition CACHE_TTL :: int where
  "CACHE_TTL = 60000"

text \<open>The module-level variables \<open>cachedMarkets\<close>, \<open>lastFetchTime\<close> and \<open>isLiveData\<close>.\<close>

record ApiState =
  cachedMarkets :: "Market list"
  lastFetchTime :: int
  isLiveData :: bool

definition initialApiState :: ApiState where
  "initialApiState = \<lparr>cachedMarkets = fallbackMarkets, lastFetchTime = 0, isLiveData = False\<rparr>"

text \<open>
  \<open>fetchAllMarkets\<close>. \<open>now\<close> is \<open>Date.now()\<close>; \<open>polymarketMarkets\<close> and \<open>kalshiMarkets\<close>
  are what the two awaited fetches deliver when the cache is not fresh (neither fetch
  rejects: each catches its own failures and returns a list). The result is the returned
  list and the state after the call.
\<close>

definition fetchAllMarkets ::
  "int \<Rightarrow> Market list \<Rightarrow> Market list \<Rightarrow> ApiState \<Rightarrow> Market list \<times> ApiState"
where
  "fetchAllMarkets now polymarketMarkets kalshiMarkets s =
     (if isLiveData s \<and> length (cachedMarkets s) > 0 \<and> now - lastFetchTime s < CACHE_TTL
      then (cachedMarkets s, s)
      else
        (let allMarkets = polymarketMarkets @ kalshiMarkets;
             s' = (if length allMarkets > 0
                   then s\<lparr>cachedMarkets := allMarkets, lastFetchTime := now, isLiveData := True\<rparr>
                   else if length (cachedMarkets s) = 0
                   then s\<lparr>cachedMarkets := fallbackMarkets\<rparr>
                   else s)
         in (cachedMarkets s', s')))"

text \<open>\<open>getCachedMarkets\<close>; \<open>polymarketCached\<close> is the value of \<open>getPolymarketCachedMarkets()\<close>.\<close>

definition getCachedMarkets :: "Market list \<Rightarrow> ApiState \<Rightarrow> Market list" where
  "getCachedMarkets polymarketCached s =
     (if length polymarketCached > 0
      then polymarketCached @ filter (\<lambda>m. platform m = Kalshi) (cachedMarkets s)
      else cachedMarkets s)"

section \<open>Spread detector (server/api-clients.ts)\<close>

text \<open>The curated list; \<open>now\<close> is \<open>new Date().toISOString()\<close>.\<close>

definition mockSpreads :: "string \<Rightarrow> SpreadOpportunity list" where
  "mockSpreads now =
     [\<lparr>spread_id = ''mock-1'', spread_title = ''Will Bitcoin exceed $150,000 by end of 2025?'',
        polymarketId = Some ''poly-btc-150k'', kalshiId = Some ''kalshi-btc-150k'',
        polymarketYesPrice = Some (42 / 100), kalshiYesPrice = Some (35 / 100),
        spreadPercent = 7, spreadDirection = polymarket_higher,
        combinedVolume = Some (Fin 2500000), spread_category = Crypto,
        spread_resolutionDate = ''2025-12-31'', confidence = High, detectedAt = now\<rparr>,
      \<lparr>spread_id = ''mock-2'', spread_title = ''Will Ethereum reach $10,000 in 2025?'',
        polymarketId = Some ''poly-eth-10k'', kalshiId = Some ''kalshi-eth-10k'',
        polymarketYesPrice = Some (28 / 100), kalshiYesPrice = Some (34 / 100),
        spreadPercent = 6, spreadDirection = kalshi_higher,
        combinedVolume = Some (Fin 1800000), spread_category = Crypto,
        spread_resolutionDate = ''2025-12-31'', confidence = High, detectedAt = now\<rparr>,
      \<lparr>spread_id = ''mock-3'', spread_title = ''Will Fed cut rates in January 2025?'',
        polymarketId = Some ''poly-fed-jan'', kalshiId = Some ''kalshi-fed-jan'',
        polymarketYesPrice = Some (15 / 100), kalshiYesPrice = Some (22 / 100),
        spreadPercent = 7, spreadDirection = kalshi_higher,
        combinedVolume = Some (Fin 3200000), spread_category = Economy,
        spread_resolutionDate = ''2025-01-31'', confidence = High, detectedAt = now\<rparr>,
      \<lparr>spread_id = ''mock-4'', spread_title = ''Will Tesla stock hit $500 by Q1 2025?'',
        polymarketId = Some ''poly-tsla-500'', kalshiId = Some ''kalshi-tsla-500'',
        polymarketYesPrice = Some (55 / 100), kalshiYesPrice = Some (48 / 100),
        spreadPercent = 7, spreadDirection = polymarket_higher,
        combinedVolume = Some (Fin 1500000), spread_category = Economy,
        spread_resolutionDate = ''2025-03-31'', confidence = Medium, detectedAt = now\<rparr>,
      \<lparr>spread_id = ''mock-5'', spread_title = ''Will Ukraine conflict end before July 2025?'',
        polymarketId = Some ''poly-ukraine'', kalshiId = Some ''kalshi-ukraine'',
        polymarketYesPrice = Some (18 / 100), kalshiYesPrice = Some (25 / 100),
        spreadPercent = 7, spreadDirection = kalshi_higher,
        combinedVolume = Some (Fin 4500000), spread_category = Politics,
        spread_resolutionDate = ''2025-06-30'', confidence = Medium, detectedAt = now\<rparr>,
      \<lparr>spread_id = ''mock-6'', spread_title = ''Will Solana flip Ethereum market cap in 2025?'',
        polymarketId = Some ''poly-sol-flip'', kalshiId = Some ''kalshi-sol-flip'',
        polymarketYesPrice = Some (8 / 100), kalshiYesPrice = Some (12 / 100),
        spreadPercent = 4, spreadDirection = kalshi_higher,
        combinedVolume = Some (Fin 890000), spread_category = Crypto,
        spread_resolutionDate = ''2025-12-31'', confidence = Medium, detectedAt = now\<rparr>,
      \<lparr>spread_id = ''mock-7'', spread_title = ''Will Apple release AR glasses in 2025?'',
        polymarketId = Some ''poly-apple-ar'', kalshiId = Some ''kalshi-apple-ar'',
        polymarketYesPrice = Some (38 / 100), kalshiYesPrice = Some (32 / 100),
        spreadPercent = 6, spreadDirection = polymarket_higher,
        combinedVolume = Some (Fin 720000), spread_category = Tech,
        spread_resolutionDate = ''2025-12-31'', confidence = Low, detectedAt = now\<rparr>,
      \<lparr>spread_id = ''mock-8'', spread_title = ''Will S&P 500 reach 6500 by mid-2025?'',
        polymarketId = Some ''poly-sp500'', kalshiId = Some ''kalshi-sp500'',
        polymarketYesPrice = Some (62 / 100), kalshiYesPrice = Some (55 / 100),
        spreadPercent = 7, spreadDirection = polymarket_higher,
        combinedVolume = Some (Fin 2100000), spread_category = Economy,
        spread_resolutionDate = ''2025-06-30'', confidence = High, detectedAt = now\<rparr>]"

text \<open>
  \<open>xs.sort((a, b) => b.spreadPercent - a.spreadPercent)\<close>: a stable sort that puts the
  largest \<open>spreadPercent\<close> first.
\<close>

definition sortBySpreadDesc :: "SpreadOpportunity list \<Rightarrow> SpreadOpportunity list" where
  "sortBySpreadDesc xs = sort_key (\<lambda>a. - spreadPercent a) xs"

text \<open>The conditional \<open>pmPrice > klPrice ? "polymarket_higher" : "kalshi_higher"\<close>.\<close>

definition crossDirection :: "rat \<Rightarrow> rat \<Rightarrow> SpreadDirection" where
  "crossDirection pmPrice klPrice =
     (if pmPrice > klPrice then polymarket_higher else kalshi_higher)"

text \<open>The loop over \<open>matches\<close>; \<open>index\<close> counts every match, skipped or not.\<close>

fun crossLoop :: "string \<Rightarrow> nat \<Rightarrow> MarketSimilarity list \<Rightarrow> SpreadOpportunity list" where
  "crossLoop now index [] = []"
| "crossLoop now index (match # rest) =
     (case (polymarket match, kalshi match) of
        (Some pm, Some kl) \<Rightarrow>
          (let pmPrice = yesPrice pm;
               klPrice = yesPrice kl;
               spread = \<bar>pmPrice - klPrice\<bar> * 100
           in if spread < 2 then crossLoop now (Suc index) rest
              else
                \<lparr>spread_id = ''spread-'' @ show_nat index,
                 spread_title = title pm,
                 polymarketId = Some (market_id pm),
                 kalshiId = Some (market_id kl),
                 polymarketYesPrice = Some pmPrice,
                 kalshiYesPrice = Some klPrice,
                 spreadPercent = Math_round (spread * 10) / 10,
                 spreadDirection = crossDirection pmPrice klPrice,
                 combinedVolume = js_add (Some (volume pm)) (Some (volume kl)),
                 spread_category = category pm,
                 spread_resolutionDate = resolutionDate pm,
                 confidence = (if similarity match > 7 / 10 then High
                               else if similarity match > 5 / 10 then Medium else Low),
                 detectedAt = now\<rparr> # crossLoop now (Suc index) rest)
      | _ \<Rightarrow> crossLoop now (Suc index) rest)"

definition internalSpread :: "Market \<Rightarrow> rat" where
  "internalSpread m = \<bar>yesPrice m - (1 - noPrice m)\<bar> * 100"

definition singlePlatformSpreads :: "string \<Rightarrow> Market list \<Rightarrow> SpreadOpportunity list" where
  "singlePlatformSpreads now markets =
     map (\<lambda>(index, m).
            \<lparr>spread_id = ''internal-spread-'' @ show_nat index,
             spread_title = title m,
             polymarketId = (if platform m = Polymarket then Some (market_id m) else None),
             kalshiId = (if platform m = Kalshi then Some (market_id m) else None),
             polymarketYesPrice = (if platform m = Polymarket then Some (yesPrice m) else None),
             kalshiYesPrice = (if platform m = Kalshi then Some (yesPrice m) else None),
             spreadPercent = Math_round (\<bar>yesPrice m - (1 - noPrice m)\<bar> * 1000) / 10,
             spreadDirection =
               (if platform m = Polymarket then polymarket_higher else kalshi_higher),
             combinedVolume = Some (volume m),
             spread_category = category m,
             spread_resolutionDate = resolutionDate m,
             confidence = Medium,
             detectedAt = now\<rparr>)
         (enumerate 0 (filter (\<lambda>m. internalSpread m > 5) markets))"

text \<open>
  The body of \<open>detectSpreadOpportunities\<close> from the snapshot \<open>markets\<close> on: the list
  \<open>opportunities\<close> after its own sort, and the returned list.
\<close>

definition crossOpportunities :: "string \<Rightarrow> Market list \<Rightarrow> SpreadOpportunity list" where
  "crossOpportunities now markets = sortBySpreadDesc (crossLoop now 0 (findMatchingMarkets markets))"

definition rankSpreads :: "string \<Rightarrow> Market list \<Rightarrow> SpreadOpportunity list" where
  "rankSpreads now markets =
     take 20 (sortBySpreadDesc
       (mockSpreads now @ crossOpportunities now markets @ singlePlatformSpreads now markets))"

text \<open>
  \<open>detectSpreadOpportunities\<close>: refresh through \<open>fetchAllMarkets\<close>, read the snapshot with
  \<open>getCachedMarkets\<close>, rank. The parameters are the clock readings and the values the
  awaited fetches and the live cache deliver.
\<close>

definition detectSpreadOpportunities ::
  "string \<Rightarrow> int \<Rightarrow> Market list \<Rightarrow> Market list \<Rightarrow> Market list \<Rightarrow> ApiState
     \<Rightarrow> SpreadOpportunity list \<times> ApiState"
where
  "detectSpreadOpportunities stamp now polymarketMarkets kalshiMarkets polymarketCached s =
     (let s' = snd (fetchAllMarkets now polymarketMarkets kalshiMarkets s);
          markets = getCachedMarkets polymarketCached s'
      in (rankSpreads stamp markets, s'))"

section \<open>Source-B adapter (server/api-clients.ts)\<close>

text \<open>
  A listing as the provider sends it. A string property that is absent is the empty string
  (each use of one goes through \<open>||\<close> or an equality test, which treat both alike); a
  number property that is absent is \<open>NaN\<close>.
\<close>

record KalshiMarket =
  ticker :: string
  kalshi_title :: string
  subtitle :: string
  yes_bid :: number
  yes_ask :: number
  no_bid :: number
  no_ask :: number
  kalshi_volume :: number
  volume_24h :: number
  close_time :: string
  status :: string
  kalshi_category :: string
  result :: "string option"
  event_ticker :: string

definition mapKalshiCategory :: "KalshiMarket \<Rightarrow> Category" where
  "mapKalshiCategory market =
     (let cat = toLowerCase (kalshi_category market);
          title = toLowerCase (kalshi_title market)
      in if includes_str cat ''crypto'' \<or> includes_str title ''bitcoin''
            \<or> includes_str title ''crypto'' then Crypto
         else if includes_str cat ''politic'' \<or> includes_str cat ''election''
            \<or> includes_str title ''president'' \<or> includes_str title ''congress'' then Politics
         else if includes_str cat ''sport'' \<or> includes_str title ''super bowl''
            \<or> includes_str title ''championship'' then Sports
         else if includes_str cat ''econ'' \<or> includes_str cat ''fed''
            \<or> includes_str title ''inflation'' \<or> includes_str title ''interest rate'' then Economy
         else if includes_str cat ''tech'' \<or> includes_str cat ''science''
            \<or> includes_str title ''ai'' \<or> includes_str title ''tesla'' then Tech
         else Trending)"

text \<open>The callback of \<open>.map\<close>: one listing to one canonical record.\<close>

definition kalshiToMarket :: "KalshiMarket \<Rightarrow> Market" where
  "kalshiToMarket market =
     (let yesMid = js_div_const (js_div_const (js_add (yes_bid market) (yes_ask market)) 2) 100;
          noMid = js_div_const (js_div_const (js_add (no_bid market) (no_ask market)) 2) 100
      in \<lparr>market_id = ''kl-'' @ ticker market,
          title = (if kalshi_title market \<noteq> [] then kalshi_title market else ''Untitled Market''),
          description = subtitle market,
          platform = Kalshi,
          category = mapKalshiCategory market,
          yesPrice = clampPrice (js_or yesMid (Fin (1 / 2))),
          noPrice = clampPrice (js_or noMid (Fin (1 / 2))),
          volume = js_or (kalshi_volume market) (Fin 0),
          resolutionDate = close_time market\<rparr>)"

text \<open>
  What the request can come to: the \<open>fetch\<close> promise rejects, or a response arrives with
  a status code and a body. The body is not JSON, or is JSON without an array under
  \<open>markets\<close>, or carries the array; an element \<open>None\<close> of the array is \<open>null\<close>.
\<close>

datatype ResponseBody = NotJson | NoMarketsArray | MarketsArray "KalshiMarket option list"

datatype FetchOutcome = Rejected | Response nat ResponseBody

datatype error = NetworkError | HttpError nat | SyntaxError | TypeError

definition response_ok :: "nat \<Rightarrow> bool" where
  "response_ok code \<longleftrightarrow> 200 \<le> code \<and> code \<le> 299"

text \<open>\<open>.filter(m => m.status === "open" || m.status === "active")\<close>; reading \<open>status\<close>
  of \<open>null\<close> throws.\<close>

fun filterOpen :: "KalshiMarket option list \<Rightarrow> error + KalshiMarket list" where
  "filterOpen [] = Inr []"
| "filterOpen (None # ms) = Inl TypeError"
| "filterOpen (Some m # ms) =
     (case filterOpen ms of
        Inl e \<Rightarrow> Inl e
      | Inr kept \<Rightarrow> Inr (if status m = ''open'' \<or> status m = ''active'' then m # kept else kept))"

text \<open>The \<open>try\<close> block of \<open>fetchKalshiMarkets\<close>: \<open>Inl\<close> is a thrown exception.\<close>

fun fetchKalshiMarkets_try :: "FetchOutcome \<Rightarrow> error + Market list" where
  "fetchKalshiMarkets_try Rejected = Inl NetworkError"
| "fetchKalshiMarkets_try (Response code body) =
     (if \<not> response_ok code then Inl (HttpError code)
      else (case body of
              NotJson \<Rightarrow> Inl SyntaxError
            | NoMarketsArray \<Rightarrow> Inl TypeError
            | MarketsArray ms \<Rightarrow>
                (case filterOpen ms of
                   Inl e \<Rightarrow> Inl e
                 | Inr kept \<Rightarrow> Inr (map kalshiToMarket kept))))"

text \<open>\<open>fetchKalshiMarkets\<close>: the \<open>catch\<close> clause turns every exception into the empty list.\<close>

definition fetchKalshiMarkets :: "FetchOutcome \<Rightarrow> Market list" where
  "fetchKalshiMarkets fetched =
     (case fetchKalshiMarkets_try fetched of
        Inl e \<Rightarrow> []
      | Inr markets \<Rightarrow> markets)"

section \<open>Source-A adapter and live feed (server/polymarket-ws.ts)\<close>




datatype ReadyState = CONNECTING | OPEN | CLOSING | CLOSED

text \<open>
  The module-level state: the three maps, the connection (\<open>None\<close> is \<open>null\<close>, otherwise
  the socket's \<open>readyState\<close>) and the attempt counter. \<open>scheduled\<close> records the delay of
  every \<open>setTimeout\<close> issued by \<open>scheduleReconnect\<close>, \<open>subscriptions\<close> counts the
  subscription requests sent. Records are held by value: the arrays that
  \<open>getPolymarketMarkets\<close> hands to the REST layer share their objects with \<open>marketCache\<close>
  in the source, which is why \<open>getCachedMarkets\<close> above takes the live records as an
  argument of its own.
\<close>

record WsState =
  marketCache :: "string \<rightharpoonup> Market"
  assetToMarketMap :: "string \<rightharpoonup> string"
  slugToMarketId :: "string \<rightharpoonup> string"
  wsConnection :: "ReadyState option"
  reconnectAttempts :: nat
  scheduled :: "nat list"
  subscriptions :: nat

definition MAX_RECONNECT_ATTEMPTS :: nat where
  "MAX_RECONNECT_ATTEMPTS = 5"

definition RECONNECT_DELAY :: nat where
  "RECONNECT_DELAY = 5000"

definition initialWsState :: WsState where
  "initialWsState =
     \<lparr>marketCache = Map.empty, assetToMarketMap = Map.empty, slugToMarketId = Map.empty,
      wsConnection = None, reconnectAttempts = 0, scheduled = [], subscriptions = 0\<rparr>"












text \<open>
  \<open>scheduleReconnect\<close>, and \<open>connectWebSocket\<close> with its handlers for the socket's
  \<open>open\<close> and \<open>close\<close> events; \<open>throws\<close> tells whether \<open>new WebSocket\<close> throws. The
  socket library moves \<open>readyState\<close> before it calls a handler.
\<close>

definition scheduleReconnect :: "WsState \<Rightarrow> WsState" where
  "scheduleReconnect s =
     (if reconnectAttempts s \<ge> MAX_RECONNECT_ATTEMPTS then s
      else
        (let attempts = reconnectAttempts s + 1;
             delay = RECONNECT_DELAY * attempts
         in s\<lparr>reconnectAttempts := attempts, scheduled := scheduled s @ [delay]\<rparr>))"

definition connectWebSocket :: "bool \<Rightarrow> WsState \<Rightarrow> WsState" where
  "connectWebSocket throws s =
     (if wsConnection s = Some OPEN then s
      else if throws then scheduleReconnect s
      else s\<lparr>wsConnection := Some CONNECTING\<rparr>)"

definition onOpen :: "WsState \<Rightarrow> WsState" where
  "onOpen s = s\<lparr>wsConnection := map_option (\<lambda>_. OPEN) (wsConnection s),
                reconnectAttempts := 0,
                subscriptions := subscriptions s + (if wsConnection s = None then 0 else 1)\<rparr>"

definition onClose :: "WsState \<Rightarrow> WsState" where
  "onClose s = scheduleReconnect (s\<lparr>wsConnection := map_option (\<lambda>_. CLOSED) (wsConnection s)\<rparr>)"

text \<open>The live-feed message and \<open>handleRTDSMessage\<close>; a \<open>payload\<close> \<open>None\<close> is a falsy one.\<close>

record TradePayload =
  market_slug :: string
  outcome :: string
  price :: number
  trade_size :: number
  side :: string
  timestamp :: number

record RTDSMessage =
  topic :: string
  msg_type :: string
  payload :: "TradePayload option"

definition handleRTDSMessage :: "RTDSMessage \<Rightarrow> WsState \<Rightarrow> WsState" where
  "handleRTDSMessage message s =
     (if topic message = ''activity'' \<and> msg_type message = ''trades'' then
        (case payload message of
           None \<Rightarrow> s
         | Some p \<Rightarrow>
             (if market_slug p \<noteq> [] \<and> price p \<noteq> None \<and> price p \<noteq> Some (Fin 0) then
                (case slugToMarketId s (market_slug p) of
                   None \<Rightarrow> s
                 | Some marketId \<Rightarrow>
                     (if marketId \<noteq> [] then
                        (case marketCache s marketId of
                           None \<Rightarrow> s
                         | Some market \<Rightarrow>
                             (case price p of
                                Some (Fin newPrice) \<Rightarrow>
                                  (if newPrice > 0 \<and> newPrice < 1 then
                                     (let market' =
                                        (if outcome p = ''Yes'' \<or> outcome p = ''yes''
                                         then market\<lparr>yesPrice := newPrice,
                                                noPrice := js_sub 1 newPrice\<rparr>
                                         else market\<lparr>noPrice := newPrice,
                                                yesPrice := js_sub 1 newPrice\<rparr>)
                                      in s\<lparr>marketCache := (marketCache s)(marketId \<mapsto> market')\<rparr>)
                                   else s)
                              | _ \<Rightarrow> s))
                      else s))
              else s))
      else s)"

text \<open>
  The events that reach the client, and the client run over a sequence of them:
  the socket's \<open>open\<close>, \<open>close\<close> and \<open>message\<close> events, and a call of
  \<open>connectWebSocket\<close> (by a reconnect timer or by \<open>getPolymarketMarkets\<close>).
\<close>

datatype WsEvent = SocketOpen | SocketClose | SocketMessage RTDSMessage | Connect bool

fun wsStep :: "WsEvent \<Rightarrow> WsState \<Rightarrow> WsState" where
  "wsStep SocketOpen s = onOpen s"
| "wsStep SocketClose s = onClose s"
| "wsStep (SocketMessage message) s = handleRTDSMessage message s"
| "wsStep (Connect throws) s = connectWebSocket throws s"

definition wsRun :: "WsEvent list \<Rightarrow> WsState \<Rightarrow> WsState" where
  "wsRun events s = fold wsStep events s"

section \<open>Price ranges\<close>



section \<open>Concrete inputs\<close>

text \<open>The two listings of the Bitcoin scenario, and a source-B listing that repeats the
  source-A title.\<close>

definition btcA :: Market where
  "btcA = \<lparr>market_id = ''pm-btc'', title = ''Will BTC hit $150k?'', description = '''',
            platform = Polymarket, category = Crypto, yesPrice = 42 / 100, noPrice = 58 / 100,
            volume = Fin 1000, resolutionDate = ''2025-12-31''\<rparr>"

definition btcB :: Market where
  "btcB = \<lparr>market_id = ''kl-btc'', title = ''Bitcoin to exceed $150,000'', description = '''',
            platform = Kalshi, category = Crypto, yesPrice = 35 / 100, noPrice = 65 / 100,
            volume = Fin 1000, resolutionDate = ''2025-12-31''\<rparr>"

definition btcTwin :: Market where
  "btcTwin = btcB\<lparr>title := ''will btc hit 150K''\<rparr>"

text \<open>The same listing three points below source A, its book consistent.\<close>

definition btcNear :: Market where
  "btcNear = btcTwin\<lparr>yesPrice := 39 / 100, noPrice := 61 / 100\<rparr>"

text \<open>Two source-A and two source-B listings with overlapping titles.\<close>

definition duoMarkets :: "Market list" where
  "duoMarkets =
     [\<lparr>market_id = ''pm-x'', title = ''alpha beta gamma'', description = '''',
       platform = Polymarket, category = Trending, yesPrice = 50 / 100, noPrice = 50 / 100,
       volume = Fin 0, resolutionDate = ''''\<rparr>,
      \<lparr>market_id = ''pm-y'', title = ''alpha beta gamma'', description = '''',
       platform = Polymarket, category = Trending, yesPrice = 50 / 100, noPrice = 50 / 100,
       volume = Fin 0, resolutionDate = ''''\<rparr>,
      \<lparr>market_id = ''kl-x'', title = ''alpha beta gamma'', description = '''',
       platform = Kalshi, category = Trending, yesPrice = 50 / 100, noPrice = 50 / 100,
       volume = Fin 0, resolutionDate = ''''\<rparr>,
      \<lparr>market_id = ''kl-y'', title = ''alpha beta gamma delta'', description = '''',
       platform = Kalshi, category = Trending, yesPrice = 50 / 100, noPrice = 50 / 100,
       volume = Fin 0, resolutionDate = ''''\<rparr>]"

text \<open>Fourteen source-B listings whose book is off by six points each.\<close>

definition crowdedMarkets :: "Market list" where
  "crowdedMarkets =
     map (\<lambda>i. \<lparr>market_id = ''kl-'' @ show_nat i, title = ''Untitled Market'', description = '''',
                platform = Kalshi, category = Trending, yesPrice = 50 / 100, noPrice = 44 / 100,
                volume = Fin 0, resolutionDate = ''''\<rparr>) [0..<14]"

text \<open>A matched pair whose two prices are equal.\<close>

definition tiedMatch :: MarketSimilarity where
  "tiedMatch = \<lparr>polymarket = Some (btcA\<lparr>yesPrice := 1 / 2\<rparr>),
                kalshi = Some (btcB\<lparr>yesPrice := 1 / 2\<rparr>), similarity = 1\<rparr>"

text \<open>Five failed connection attempts in a row: each is a call of \<open>connectWebSocket\<close>
  followed by the socket's \<open>close\<close> event.\<close>

definition fiveFailures :: "WsEvent list" where
  "fiveFailures =
     [Connect False, SocketClose, Connect False, SocketClose, Connect False, SocketClose,
      Connect False, SocketClose, Connect False, SocketClose]"

text \<open>A live cache with one record and its slug, and three trade messages.\<close>

definition pricedState :: WsState where
  "pricedState =
     initialWsState\<lparr>marketCache := [''pm-btc'' \<mapsto> btcA\<lparr>yesPrice := 1 / 2, noPrice := 1 / 2\<rparr>],
                    slugToMarketId := [''btc-150k'' \<mapsto> ''pm-btc'']\<rparr>"

definition trade :: "string \<Rightarrow> rat \<Rightarrow> RTDSMessage" where
  "trade s p =
     \<lparr>topic = ''activity'', msg_type = ''trades'',
      payload = Some \<lparr>market_slug = s, outcome = ''Yes'', price = Some (Fin p),
                      trade_size = Some (Fin 10), side = ''BUY'', timestamp = Some (Fin 0)\<rparr>\<rparr>"




text \<open>Two listings of the source-B provider, one open and one settled.\<close>

definition openListing :: KalshiMarket where
  "openListing =
     \<lparr>ticker = ''BTC-150K'', kalshi_title = ''Bitcoin to exceed $150,000'', subtitle = '''',
      yes_bid = Some (Fin 34), yes_ask = Some (Fin 36), no_bid = Some (Fin 64),
      no_ask = Some (Fin 66), kalshi_volume = Some (Fin 1000), volume_24h = Some (Fin 10),
      close_time = ''2025-12-31'', status = ''open'', kalshi_category = ''Crypto'',
      result = None, event_ticker = ''BTC''\<rparr>"

definition settledListing :: KalshiMarket where
  "settledListing = openListing\<lparr>ticker := ''BTC-100K'', status := ''settled''\<rparr>"

section \<open>Ranking: bound, order and the curated list\<close>

lemma sortBySpreadDesc_sorted:
  "sorted_wrt (\<lambda>a b. spreadPercent a \<ge> spreadPercent b) (sortBySpreadDesc xs)"
proof -
  have "sorted (map (\<lambda>a. - spreadPercent a) (sortBySpreadDesc xs))"
    unfolding sortBySpreadDesc_def by (rule sorted_sort_key)
  then show ?thesis by (simp add: sorted_map)
qed

lemma length_sortBySpreadDesc: "length (sortBySpreadDesc xs) = length xs"
  by (simp add: sortBySpreadDesc_def)

lemma set_sortBySpreadDesc: "set (sortBySpreadDesc xs) = set xs"
  by (simp add: sortBySpreadDesc_def)

lemma rankSpreads_sorted:
  "sorted_wrt (\<lambda>a b. spreadPercent a \<ge> spreadPercent b) (rankSpreads stamp markets)"
  unfolding rankSpreads_def by (rule sorted_wrt_take) (rule sortBySpreadDesc_sorted)

lemma rankSpreads_length: "length (rankSpreads stamp markets) \<le> 20"
  by (simp add: rankSpreads_def)

lemma length_mockSpreads: "length (mockSpreads stamp) = 8"
  by (simp add: mockSpreads_def)

lemma rankSpreads_at_least_8: "8 \<le> length (rankSpreads stamp markets)"
  by (simp add: rankSpreads_def length_sortBySpreadDesc length_mockSpreads)

lemma mockSpreads_range:
  "list_all (\<lambda>m. 4 \<le> spreadPercent m \<and> spreadPercent m \<le> 7) (mockSpreads stamp)"
  by (simp add: mockSpreads_def)

lemma fst_detectSpreadOpportunities:
  "fst (detectSpreadOpportunities stamp now polymarketMarkets kalshiMarkets polymarketCached s) =
   rankSpreads stamp
     (getCachedMarkets polymarketCached (snd (fetchAllMarkets now polymarketMarkets kalshiMarkets s)))"
  by (simp add: detectSpreadOpportunities_def Let_def)

lemma crowded_ranking:
  "map spread_id (fst (detectSpreadOpportunities [] 0 [] crowdedMarkets [] initialApiState)) =
     [''mock-1'', ''mock-3'', ''mock-4'', ''mock-5'', ''mock-8'', ''mock-2'', ''mock-7'',
      ''internal-spread-0'', ''internal-spread-1'', ''internal-spread-2'',
      ''internal-spread-3'', ''internal-spread-4'', ''internal-spread-5'',
      ''internal-spread-6'', ''internal-spread-7'', ''internal-spread-8'',
      ''internal-spread-9'', ''internal-spread-10'', ''internal-spread-11'',
      ''internal-spread-12'']"
  by code_simp

lemma crowded_detected:
  "map spread_id (crossOpportunities [] crowdedMarkets @ singlePlatformSpreads [] crowdedMarkets) =
     [''internal-spread-0'', ''internal-spread-1'', ''internal-spread-2'',
      ''internal-spread-3'', ''internal-spread-4'', ''internal-spread-5'',
      ''internal-spread-6'', ''internal-spread-7'', ''internal-spread-8'',
      ''internal-spread-9'', ''internal-spread-10'', ''internal-spread-11'',
      ''internal-spread-12'', ''internal-spread-13'']"
  by code_simp

text \<open>
  Claim C3. Whatever the state, the clock and the fetched lists, the list returned by
  \<open>detectSpreadOpportunities\<close> has at most 20 entries and is in descending order of
  \<open>spreadPercent\<close>: each entry's value is at least that of every later entry.
\<close>

theorem detectSpreadOpportunities_bounded_sorted:
  "length (fst (detectSpreadOpportunities stamp now polymarketMarkets kalshiMarkets
             polymarketCached s)) \<le> 20
   \<and> sorted_wrt (\<lambda>a b. spreadPercent a \<ge> spreadPercent b)
       (fst (detectSpreadOpportunities stamp now polymarketMarkets kalshiMarkets
          polymarketCached s))"
  by (simp add: fst_detectSpreadOpportunities rankSpreads_sorted rankSpreads_length)

theorem detectSpreadOpportunities_bounded_sorted_witness:
  "length (fst (detectSpreadOpportunities [] 0 [] crowdedMarkets [] initialApiState)) = 20
   \<and> sorted_wrt (\<lambda>a b. spreadPercent a \<ge> spreadPercent b)
       (fst (detectSpreadOpportunities [] 0 [] crowdedMarkets [] initialApiState))"
proof -
  have "length (map spread_id
          (fst (detectSpreadOpportunities [] 0 [] crowdedMarkets [] initialApiState))) = 20"
    by (simp only: crowded_ranking) simp
  then show ?thesis
    using detectSpreadOpportunities_bounded_sorted [of "[]" 0 "[]" crowdedMarkets "[]" initialApiState]
    by simp
qed


text \<open>An element that sorts before a whole suffix is inserted in front of it, so a list
  whose front part sorts before its back part is sorted part by part.\<close>

lemma insort_key_append_le:
  "\<forall>y \<in> set ys. f x \<le> f y \<Longrightarrow> insort_key f x (xs @ ys) = insort_key f x xs @ ys"
  by (induction xs) (cases ys; simp)+

lemma sort_key_append_le:
  "\<forall>x \<in> set xs. \<forall>y \<in> set ys. f x \<le> f y \<Longrightarrow>
   sort_key f (xs @ ys) = sort_key f xs @ sort_key f ys"
proof (induction xs)
  case Nil
  then show ?case by simp
next
  case (Cons x xs)
  then have "sort_key f (xs @ ys) = sort_key f xs @ sort_key f ys" by simp
  moreover from Cons.prems have "\<forall>y \<in> set (sort_key f ys). f x \<le> f y" by simp
  ultimately show ?case by (simp add: insort_key_append_le)
qed

lemma rankSpreads_all_when_room:
  assumes "8 + length (crossOpportunities stamp markets @ singlePlatformSpreads stamp markets) \<le> 20"
  shows "rankSpreads stamp markets =
           sortBySpreadDesc (mockSpreads stamp @ crossOpportunities stamp markets
              @ singlePlatformSpreads stamp markets)"
  using assms by (simp add: rankSpreads_def length_sortBySpreadDesc length_mockSpreads)

lemma rankSpreads_curated_first:
  assumes "list_all (\<lambda>d. spreadPercent d \<le> 4)
             (crossOpportunities stamp markets @ singlePlatformSpreads stamp markets)"
  shows "rankSpreads stamp markets =
           sortBySpreadDesc (mockSpreads stamp)
           @ take 12 (sortBySpreadDesc
               (crossOpportunities stamp markets @ singlePlatformSpreads stamp markets))"
proof -
  let ?detected = "crossOpportunities stamp markets @ singlePlatformSpreads stamp markets"
  have "\<forall>m \<in> set (mockSpreads stamp). \<forall>d \<in> set ?detected.
          - spreadPercent m \<le> - spreadPercent d"
  proof (intro ballI)
    fix m d
    assume "m \<in> set (mockSpreads stamp)" and "d \<in> set ?detected"
    with assms mockSpreads_range [of stamp]
    have "4 \<le> spreadPercent m" and "spreadPercent d \<le> 4"
      unfolding list_all_iff by blast+
    then show "- spreadPercent m \<le> - spreadPercent d" by linarith
  qed
  then have "sortBySpreadDesc (mockSpreads stamp @ ?detected) =
               sortBySpreadDesc (mockSpreads stamp) @ sortBySpreadDesc ?detected"
    unfolding sortBySpreadDesc_def by (rule sort_key_append_le)
  then show ?thesis
    by (simp add: rankSpreads_def length_sortBySpreadDesc length_mockSpreads)
qed

lemma crowded_without_curated:
  "map spread_id (take 20 (sortBySpreadDesc
     (crossOpportunities [] crowdedMarkets @ singlePlatformSpreads [] crowdedMarkets))) =
     [''internal-spread-0'', ''internal-spread-1'', ''internal-spread-2'',
      ''internal-spread-3'', ''internal-spread-4'', ''internal-spread-5'',
      ''internal-spread-6'', ''internal-spread-7'', ''internal-spread-8'',
      ''internal-spread-9'', ''internal-spread-10'', ''internal-spread-11'',
      ''internal-spread-12'', ''internal-spread-13'']"
  by code_simp

lemma btc_near_ranking:
  "map (\<lambda>a. (spread_id a, spreadPercent a))
     (fst (detectSpreadOpportunities [] 0 [btcA] [btcNear] [btcA] initialApiState)) =
     [(''mock-1'', 7), (''mock-3'', 7), (''mock-4'', 7), (''mock-5'', 7), (''mock-8'', 7),
      (''mock-2'', 6), (''mock-7'', 6), (''mock-6'', 4), (''spread-0'', 3)]"
  by code_simp

lemma btc_near_detected:
  "list_all (\<lambda>d. spreadPercent d \<le> 4)
     (crossOpportunities [] [btcA, btcNear] @ singlePlatformSpreads [] [btcA, btcNear])
   \<and> length (crossOpportunities [] [btcA, btcNear]
              @ singlePlatformSpreads [] [btcA, btcNear]) = 1"
  by code_simp

lemma btc_near_snapshot:
  "getCachedMarkets [btcA] (snd (fetchAllMarkets 0 [btcA] [btcNear] initialApiState))
     = [btcA, btcNear]"
  by (simp add: getCachedMarkets_def fetchAllMarkets_def initialApiState_def Let_def
      btcA_def btcB_def btcTwin_def btcNear_def)

text \<open>
  Claim C10. On every call the result is the first 20 entries of the sorted concatenation
  of the eight curated opportunities, each with a \<open>spreadPercent\<close> between 4 and 7, with the
  opportunities detected on the snapshot (those of the matched pairs, then the
  single-source ones): the curated list is concatenated whatever the live data, so the
  result is never empty and has 8 entries plus the detected ones, up to 20. While there is
  room, every curated and every detected entry is returned. Curated entries take places
  from detected ones: when no detected spread exceeds 4 the curated list fills the first
  eight places and at most twelve detected entries are returned; and on fourteen
  inconsistent source-B books, all of which the ranking of the detected entries alone
  would return, the result holds seven curated entries and only thirteen detected ones.
\<close>

theorem curated_spreads_always_concatenated:
  "fst (detectSpreadOpportunities stamp now polymarketMarkets kalshiMarkets polymarketCached s)
     = take 20 (sortBySpreadDesc
         (mockSpreads stamp
          @ crossOpportunities stamp
              (getCachedMarkets polymarketCached
                 (snd (fetchAllMarkets now polymarketMarkets kalshiMarkets s)))
          @ singlePlatformSpreads stamp
              (getCachedMarkets polymarketCached
                 (snd (fetchAllMarkets now polymarketMarkets kalshiMarkets s)))))
   \<and> length (fst (detectSpreadOpportunities stamp now polymarketMarkets kalshiMarkets
                 polymarketCached s))
       = min 20 (8 + length
           (crossOpportunities stamp
              (getCachedMarkets polymarketCached
                 (snd (fetchAllMarkets now polymarketMarkets kalshiMarkets s)))
            @ singlePlatformSpreads stamp
              (getCachedMarkets polymarketCached
                 (snd (fetchAllMarkets now polymarketMarkets kalshiMarkets s)))))
   \<and> 8 \<le> length (fst (detectSpreadOpportunities stamp now polymarketMarkets kalshiMarkets
                    polymarketCached s))
   \<and> fst (detectSpreadOpportunities stamp now polymarketMarkets kalshiMarkets polymarketCached s) \<noteq> []
   \<and> length (mockSpreads stamp) = 8
   \<and> list_all (\<lambda>m. 4 \<le> spreadPercent m \<and> spreadPercent m \<le> 7) (mockSpreads stamp)
   \<and> (8 + length
         (crossOpportunities stamp
            (getCachedMarkets polymarketCached
               (snd (fetchAllMarkets now polymarketMarkets kalshiMarkets s)))
          @ singlePlatformSpreads stamp
            (getCachedMarkets polymarketCached
               (snd (fetchAllMarkets now polymarketMarkets kalshiMarkets s)))) \<le> 20 \<longrightarrow>
       set (fst (detectSpreadOpportunities stamp now polymarketMarkets kalshiMarkets
                   polymarketCached s))
         = set (mockSpreads stamp)
           \<union> set (crossOpportunities stamp
                (getCachedMarkets polymarketCached
                   (snd (fetchAllMarkets now polymarketMarkets kalshiMarkets s))))
           \<union> set (singlePlatformSpreads stamp
                (getCachedMarkets polymarketCached
                   (snd (fetchAllMarkets now polymarketMarkets kalshiMarkets s)))))
   \<and> (list_all (\<lambda>d. spreadPercent d \<le> 4)
         (crossOpportunities stamp
            (getCachedMarkets polymarketCached
               (snd (fetchAllMarkets now polymarketMarkets kalshiMarkets s)))
          @ singlePlatformSpreads stamp
            (getCachedMarkets polymarketCached
               (snd (fetchAllMarkets now polymarketMarkets kalshiMarkets s)))) \<longrightarrow>
       fst (detectSpreadOpportunities stamp now polymarketMarkets kalshiMarkets
              polymarketCached s)
         = sortBySpreadDesc (mockSpreads stamp)
           @ take 12 (sortBySpreadDesc
               (crossOpportunities stamp
                  (getCachedMarkets polymarketCached
                     (snd (fetchAllMarkets now polymarketMarkets kalshiMarkets s)))
                @ singlePlatformSpreads stamp
                  (getCachedMarkets polymarketCached
                     (snd (fetchAllMarkets now polymarketMarkets kalshiMarkets s))))))
   \<and> map spread_id (take 20 (sortBySpreadDesc
         (crossOpportunities [] crowdedMarkets @ singlePlatformSpreads [] crowdedMarkets))) =
       [''internal-spread-0'', ''internal-spread-1'', ''internal-spread-2'',
        ''internal-spread-3'', ''internal-spread-4'', ''internal-spread-5'',
        ''internal-spread-6'', ''internal-spread-7'', ''internal-spread-8'',
        ''internal-spread-9'', ''internal-spread-10'', ''internal-spread-11'',
        ''internal-spread-12'', ''internal-spread-13'']
   \<and> map spread_id (fst (detectSpreadOpportunities [] 0 [] crowdedMarkets [] initialApiState)) =
       [''mock-1'', ''mock-3'', ''mock-4'', ''mock-5'', ''mock-8'', ''mock-2'', ''mock-7'',
        ''internal-spread-0'', ''internal-spread-1'', ''internal-spread-2'',
        ''internal-spread-3'', ''internal-spread-4'', ''internal-spread-5'',
        ''internal-spread-6'', ''internal-spread-7'', ''internal-spread-8'',
        ''internal-spread-9'', ''internal-spread-10'', ''internal-spread-11'',
        ''internal-spread-12'']"
proof -
  let ?markets = "getCachedMarkets polymarketCached
                    (snd (fetchAllMarkets now polymarketMarkets kalshiMarkets s))"
  let ?detected = "crossOpportunities stamp ?markets @ singlePlatformSpreads stamp ?markets"
  let ?out = "fst (detectSpreadOpportunities stamp now polymarketMarkets kalshiMarkets
                polymarketCached s)"
  have out: "?out = rankSpreads stamp ?markets"
    by (rule fst_detectSpreadOpportunities)
  have eq: "?out = take 20 (sortBySpreadDesc (mockSpreads stamp @ ?detected))"
    by (simp add: out rankSpreads_def)
  have len: "length ?out = min 20 (8 + length ?detected)"
    by (simp add: eq length_sortBySpreadDesc length_mockSpreads)
  then have least: "8 \<le> length ?out" by simp
  then have nonempty: "?out \<noteq> []" by auto
  have room: "set ?out = set (mockSpreads stamp) \<union> set (crossOpportunities stamp ?markets)
                \<union> set (singlePlatformSpreads stamp ?markets)"
    if "8 + length ?detected \<le> 20"
    using rankSpreads_all_when_room [OF that]
    by (simp add: out set_sortBySpreadDesc Un_assoc)
  have first: "?out = sortBySpreadDesc (mockSpreads stamp) @ take 12 (sortBySpreadDesc ?detected)"
    if "list_all (\<lambda>d. spreadPercent d \<le> 4) ?detected"
    using rankSpreads_curated_first [OF that] by (simp add: out)
  from eq len least nonempty length_mockSpreads [of stamp] mockSpreads_range [of stamp]
    room first crowded_without_curated crowded_ranking
  show ?thesis by (intro conjI impI) assumption+
qed

theorem curated_spreads_always_concatenated_witness:
  "list_all (\<lambda>d. spreadPercent d \<le> 4)
     (crossOpportunities [] [btcA, btcNear] @ singlePlatformSpreads [] [btcA, btcNear])
   \<and> 8 + length (crossOpportunities [] [btcA, btcNear]
                   @ singlePlatformSpreads [] [btcA, btcNear]) = 9
   \<and> length (fst (detectSpreadOpportunities [] 0 [btcA] [btcNear] [btcA] initialApiState)) = 9
   \<and> fst (detectSpreadOpportunities [] 0 [btcA] [btcNear] [btcA] initialApiState)
       = sortBySpreadDesc (mockSpreads [])
         @ take 12 (sortBySpreadDesc (crossOpportunities [] [btcA, btcNear]
             @ singlePlatformSpreads [] [btcA, btcNear]))
   \<and> set (fst (detectSpreadOpportunities [] 0 [btcA] [btcNear] [btcA] initialApiState))
       = set (mockSpreads []) \<union> set (crossOpportunities [] [btcA, btcNear])
         \<union> set (singlePlatformSpreads [] [btcA, btcNear])
   \<and> map (\<lambda>a. (spread_id a, spreadPercent a))
       (fst (detectSpreadOpportunities [] 0 [btcA] [btcNear] [btcA] initialApiState)) =
       [(''mock-1'', 7), (''mock-3'', 7), (''mock-4'', 7), (''mock-5'', 7), (''mock-8'', 7),
        (''mock-2'', 6), (''mock-7'', 6), (''mock-6'', 4), (''spread-0'', 3)]"
proof -
  from btc_near_detected
  have low: "list_all (\<lambda>d. spreadPercent d \<le> 4)
               (crossOpportunities [] [btcA, btcNear] @ singlePlatformSpreads [] [btcA, btcNear])"
    and one: "length (crossOpportunities [] [btcA, btcNear]
                @ singlePlatformSpreads [] [btcA, btcNear]) = 1"
    by blast+
  from curated_spreads_always_concatenated
    [of "[]" 0 "[btcA]" "[btcNear]" "[btcA]" initialApiState]
  have gen: "length (fst (detectSpreadOpportunities [] 0 [btcA] [btcNear] [btcA] initialApiState))
       = min 20 (8 + length (crossOpportunities [] [btcA, btcNear]
                              @ singlePlatformSpreads [] [btcA, btcNear]))"
    "8 + length (crossOpportunities [] [btcA, btcNear]
                  @ singlePlatformSpreads [] [btcA, btcNear]) \<le> 20 \<longrightarrow>
       set (fst (detectSpreadOpportunities [] 0 [btcA] [btcNear] [btcA] initialApiState))
       = set (mockSpreads []) \<union> set (crossOpportunities [] [btcA, btcNear])
         \<union> set (singlePlatformSpreads [] [btcA, btcNear])"
    "list_all (\<lambda>d. spreadPercent d \<le> 4)
       (crossOpportunities [] [btcA, btcNear] @ singlePlatformSpreads [] [btcA, btcNear]) \<longrightarrow>
     fst (detectSpreadOpportunities [] 0 [btcA] [btcNear] [btcA] initialApiState)
       = sortBySpreadDesc (mockSpreads [])
         @ take 12 (sortBySpreadDesc (crossOpportunities [] [btcA, btcNear]
             @ singlePlatformSpreads [] [btcA, btcNear]))"
    unfolding btc_near_snapshot by blast+
  from one have nine: "8 + length (crossOpportunities [] [btcA, btcNear]
                   @ singlePlatformSpreads [] [btcA, btcNear]) = 9"
    by simp
  from gen(1) have len: "length (fst (detectSpreadOpportunities [] 0 [btcA] [btcNear] [btcA]
                            initialApiState)) = 9"
    unfolding nine by simp
  from nine have "8 + length (crossOpportunities [] [btcA, btcNear]
                   @ singlePlatformSpreads [] [btcA, btcNear]) \<le> 20"
    by simp
  with gen(2) have all: "set (fst (detectSpreadOpportunities [] 0 [btcA] [btcNear] [btcA] initialApiState))
       = set (mockSpreads []) \<union> set (crossOpportunities [] [btcA, btcNear])
         \<union> set (singlePlatformSpreads [] [btcA, btcNear])"
    by blast
  from gen(3) low have first: "fst (detectSpreadOpportunities [] 0 [btcA] [btcNear] [btcA] initialApiState)
       = sortBySpreadDesc (mockSpreads [])
         @ take 12 (sortBySpreadDesc (crossOpportunities [] [btcA, btcNear]
             @ singlePlatformSpreads [] [btcA, btcNear]))"
    by blast
  from low nine len first all btc_near_ranking show ?thesis
    by (intro conjI) assumption+
qed


section \<open>Cold start and empty refreshes\<close>

lemma fallbackMarkets_nonempty: "fallbackMarkets \<noteq> []"
  by (simp add: fallbackMarkets_def)

lemma fetchAllMarkets_cold:
  "fst (fetchAllMarkets now [] [] initialApiState) = fallbackMarkets"
  by (simp add: fetchAllMarkets_def initialApiState_def)

lemma fetchAllMarkets_nonempty:
  "fst (fetchAllMarkets now polymarketMarkets kalshiMarkets s) \<noteq> []"
  using fallbackMarkets_nonempty by (auto simp: fetchAllMarkets_def Let_def)

lemma fetchAllMarkets_retains:
  "polymarketMarkets @ kalshiMarkets = [] \<Longrightarrow> cachedMarkets s \<noteq> [] \<Longrightarrow>
   fetchAllMarkets now polymarketMarkets kalshiMarkets s = (cachedMarkets s, s)"
  by (simp add: fetchAllMarkets_def Let_def)

text \<open>
  Claim C4. On a fresh process, when both fetches deliver no record, \<open>fetchAllMarkets\<close>
  returns the static fallback list, which is not empty. In any state, a refresh that
  delivers no record from either source leaves a non-empty cache as it was and returns it;
  and in every state and for every fetch result the returned list is not empty.
\<close>

theorem fetchAllMarkets_never_empty:
  "fst (fetchAllMarkets now [] [] initialApiState) = fallbackMarkets
   \<and> fallbackMarkets \<noteq> []
   \<and> fst (fetchAllMarkets now polymarketMarkets kalshiMarkets s) \<noteq> []
   \<and> (polymarketMarkets @ kalshiMarkets = [] \<longrightarrow> cachedMarkets s \<noteq> [] \<longrightarrow>
        fetchAllMarkets now polymarketMarkets kalshiMarkets s = (cachedMarkets s, s))"
  using fetchAllMarkets_cold fallbackMarkets_nonempty fetchAllMarkets_nonempty
    fetchAllMarkets_retains by blast

theorem fetchAllMarkets_never_empty_witness:
  "[] @ [] = ([] :: Market list) \<and> cachedMarkets initialApiState \<noteq> []
   \<and> fetchAllMarkets 0 [] [] initialApiState = (fallbackMarkets, initialApiState)
   \<and> length (fst (fetchAllMarkets 0 [] [] initialApiState)) = 6"
proof -
  have c: "cachedMarkets initialApiState = fallbackMarkets"
    by (simp add: initialApiState_def)
  have l: "length fallbackMarkets = 6"
    by (simp add: fallbackMarkets_def)
  from c l show ?thesis
    using fetchAllMarkets_never_empty [of 0 "[]" "[]" initialApiState]
    by simp
qed

section \<open>Matching\<close>

lemma subseq_keeps_distinct: "subseq xs ys \<Longrightarrow> distinct ys \<Longrightarrow> distinct xs"
proof (induction rule: list_emb.induct)
  case (list_emb_Nil ys)
  then show ?case by simp
next
  case (list_emb_Cons xs ys y)
  then show ?case by simp
next
  case (list_emb_Cons2 x y xs ys)
  from list_emb_Cons2.hyps(2) have "set xs \<subseteq> set ys"
    by (auto dest: list_emb_set)
  with list_emb_Cons2 show ?case by auto
qed

text \<open>The candidate chosen by the inner loop is never one already claimed.\<close>

lemma bestMatchLoop_unused:
  "bestMatchLoop pm used kls best = Some (kl, sim) \<Longrightarrow>
   (\<And>k s. best = Some (k, s) \<Longrightarrow> market_id k \<notin> used) \<Longrightarrow> market_id kl \<notin> used"
proof (induction kls arbitrary: best)
  case Nil
  then show ?case by simp
next
  case (Cons k kls)
  show ?case
  proof (cases "market_id k \<in> used")
    case True
    with Cons.prems(1) have "bestMatchLoop pm used kls best = Some (kl, sim)" by simp
    from Cons.IH [OF this] Cons.prems(2) show ?thesis by blast
  next
    case False
    from False Cons.prems(1) consider
        (taken) "bestMatchLoop pm used kls
                   (Some (k, calculateSimilarity (title pm) (title k))) = Some (kl, sim)"
      | (kept) "bestMatchLoop pm used kls best = Some (kl, sim)"
      by (auto simp: Let_def split: if_splits)
    then show ?thesis
    proof cases
      case taken
      from Cons.IH [OF this] False show ?thesis by simp
    next
      case kept
      from Cons.IH [OF this] Cons.prems(2) show ?thesis by blast
    qed
  qed
qed

text \<open>The outer loop only appends: the new pairs follow the order of the source-A list
  and claim source-B identifiers that were free and differ from each other.\<close>

lemma matchLoop_appends:
  "\<exists>new. matchLoop pms kls used matches = matches @ new
     \<and> subseq (map polymarket new) (map Some pms)
     \<and> distinct (map (\<lambda>x. map_option market_id (kalshi x)) new)
     \<and> (\<forall>x \<in> set new. \<exists>kl. kalshi x = Some kl \<and> market_id kl \<notin> used)"
proof (induction pms arbitrary: used matches)
  case Nil
  then show ?case by simp
next
  case (Cons pm pms)
  show ?case
  proof (cases "bestMatchLoop pm used kls None")
    case None
    with Cons.IH [of used matches] show ?thesis by (auto intro: subseq_Cons')
  next
    case (Some r)
    obtain kl sim where r: "r = (kl, sim)" by (cases r)
    show ?thesis
    proof (cases "sim > 4 / 10")
      case False
      with Some r Cons.IH [of used matches] show ?thesis by auto
    next
      case True
      let ?m = "\<lparr>polymarket = Some pm, kalshi = Some kl, similarity = sim\<rparr>"
      from Some r have fresh: "market_id kl \<notin> used"
        using bestMatchLoop_unused [of pm used kls None kl sim] by simp
      from Cons.IH [of "insert (market_id kl) used" "matches @ [?m]"]
      obtain new where new:
        "matchLoop pms kls (insert (market_id kl) used) (matches @ [?m]) = (matches @ [?m]) @ new"
        "subseq (map polymarket new) (map Some pms)"
        "distinct (map (\<lambda>x. map_option market_id (kalshi x)) new)"
        "\<forall>x \<in> set new. \<exists>k. kalshi x = Some k \<and> market_id k \<notin> insert (market_id kl) used"
        by blast
      have eq: "matchLoop (pm # pms) kls used matches = matches @ (?m # new)"
        using Some r True new(1) by simp
      have sub: "subseq (map polymarket (?m # new)) (map Some (pm # pms))"
        using new(2) by simp
      have notin: "Some (market_id kl) \<notin> set (map (\<lambda>x. map_option market_id (kalshi x)) new)"
        using new(4) by force
      have dist: "distinct (map (\<lambda>x. map_option market_id (kalshi x)) (?m # new))"
        using new(3) notin by simp
      have unused: "\<forall>x \<in> set (?m # new). \<exists>k. kalshi x = Some k \<and> market_id k \<notin> used"
        using new(4) fresh by auto
      from eq sub dist unused show ?thesis by blast
    qed
  qed
qed

lemma duoMarkets_matches:
  "map (\<lambda>x. (map_option market_id (polymarket x), map_option market_id (kalshi x), similarity x))
     (findMatchingMarkets duoMarkets)
   = [(Some ''pm-x'', Some ''kl-x'', 1), (Some ''pm-y'', Some ''kl-y'', 3 / 4)]"
  by code_simp

lemma duoMarkets_distinct:
  "distinct (map market_id (filter (\<lambda>m. platform m = Polymarket) duoMarkets))"
  by code_simp

text \<open>
  Claim C7. The pairing of \<open>findMatchingMarkets\<close> is injective in both directions. The
  source-A records of the pairs are a subsequence of the snapshot's source-A records, so
  each of them is used at most once; no source-B identifier occurs in two pairs; and in a
  snapshot, where the source-A identifiers are distinct, no source-A identifier occurs in
  two pairs.
\<close>

theorem findMatchingMarkets_injective:
  "subseq (map polymarket (findMatchingMarkets markets))
          (map Some (filter (\<lambda>m. platform m = Polymarket) markets))
   \<and> distinct (map (\<lambda>x. map_option market_id (kalshi x)) (findMatchingMarkets markets))
   \<and> (distinct (map market_id (filter (\<lambda>m. platform m = Polymarket) markets)) \<longrightarrow>
        distinct (map (\<lambda>x. map_option market_id (polymarket x)) (findMatchingMarkets markets)))"
proof -
  let ?pms = "filter (\<lambda>m. platform m = Polymarket) markets"
  let ?kls = "filter (\<lambda>m. platform m = Kalshi) markets"
  from matchLoop_appends [of ?pms ?kls "{}" "[]"]
  obtain new where new: "matchLoop ?pms ?kls {} [] = new"
    "subseq (map polymarket new) (map Some ?pms)"
    "distinct (map (\<lambda>x. map_option market_id (kalshi x)) new)"
    by auto
  have fm: "findMatchingMarkets markets = new"
    using new(1) by (simp add: findMatchingMarkets_def Let_def)
  have "distinct (map (\<lambda>x. map_option market_id (polymarket x)) new)"
    if d: "distinct (map market_id ?pms)"
  proof -
    have "subseq (map (map_option market_id) (map polymarket new))
            (map (map_option market_id) (map Some ?pms))"
      using new(2) by (rule subseq_map)
    then have s: "subseq (map (\<lambda>x. map_option market_id (polymarket x)) new)
                    (map Some (map market_id ?pms))"
      by (simp add: comp_def)
    have "distinct (map Some (map market_id ?pms))"
      using d by (auto simp: distinct_map inj_on_def)
    with s show ?thesis by (rule subseq_keeps_distinct)
  qed
  with new(2,3) fm show ?thesis by simp
qed

theorem findMatchingMarkets_injective_witness:
  "distinct (map market_id (filter (\<lambda>m. platform m = Polymarket) duoMarkets))
   \<and> length (findMatchingMarkets duoMarkets) = 2
   \<and> distinct (map (\<lambda>x. map_option market_id (polymarket x)) (findMatchingMarkets duoMarkets))
   \<and> distinct (map (\<lambda>x. map_option market_id (kalshi x)) (findMatchingMarkets duoMarkets))"
proof -
  have "length (map (\<lambda>x. (map_option market_id (polymarket x),
          map_option market_id (kalshi x), similarity x)) (findMatchingMarkets duoMarkets)) = 2"
    by (simp only: duoMarkets_matches) simp
  then have "length (findMatchingMarkets duoMarkets) = 2" by simp
  with duoMarkets_distinct show ?thesis
    using findMatchingMarkets_injective [of duoMarkets] by blast
qed

section \<open>The Bitcoin scenario\<close>

lemma btc_similarity: "calculateSimilarity (title btcA) (title btcB) = 0"
  by code_simp

lemma btc_no_match: "findMatchingMarkets [btcA, btcB] = []"
  by code_simp

lemma btc_snapshot:
  "getCachedMarkets [btcA] (snd (fetchAllMarkets now [btcA] [btcB] initialApiState)) = [btcA, btcB]"
  by (simp add: getCachedMarkets_def fetchAllMarkets_def initialApiState_def Let_def btcA_def btcB_def)

lemma btc_no_internal_spread: "singlePlatformSpreads stamp [btcA, btcB] = []"
  by (simp add: singlePlatformSpreads_def internalSpread_def btcA_def btcB_def)

lemma btc_ranking: "rankSpreads stamp [btcA, btcB] = sortBySpreadDesc (mockSpreads stamp)"
  by (simp add: rankSpreads_def crossOpportunities_def btc_no_match btc_no_internal_spread
      sortBySpreadDesc_def length_mockSpreads)

lemma Math_round_of_int: "Math_round (of_int n) = of_int n"
  by (simp add: Math_round_def floor_eq_iff)

lemma crossLoop_btc_prices:
  assumes "polymarket match = Some pm" "kalshi match = Some kl"
    "yesPrice pm = 42 / 100" "yesPrice kl = 35 / 100"
  shows "map (\<lambda>a. (spreadPercent a, spreadDirection a)) (crossLoop stamp index [match])
           = [(7, polymarket_higher)]"
proof -
  have r: "Math_round (\<bar>42 / 100 - 35 / 100\<bar> * 100 * 10) = 70"
    using Math_round_of_int [of 70] by simp
  show ?thesis
    using r by (simp add: Let_def assms crossDirection_def)
qed

text \<open>
  Claim C1, as the code has it. ``Will BTC hit $150k?'' and ``Bitcoin to exceed $150,000''
  normalise to word lists with no common word: their similarity is 0, the matcher returns
  no pair for them, and on the snapshot of these two records the detector returns the
  curated entries only. A pair that the matcher does form with these two prices, 0.42 on
  source A and 0.35 on source B, yields exactly one opportunity, with \<open>spreadPercent\<close> 7
  and direction \<open>polymarket_higher\<close>.
\<close>

theorem btc_scenario_needs_shared_words:
  "calculateSimilarity (title btcA) (title btcB) = 0
   \<and> findMatchingMarkets [btcA, btcB] = []
   \<and> fst (detectSpreadOpportunities stamp now [btcA] [btcB] [btcA] initialApiState)
       = sortBySpreadDesc (mockSpreads stamp)
   \<and> (polymarket match = Some pm \<longrightarrow> kalshi match = Some kl \<longrightarrow>
        yesPrice pm = 42 / 100 \<longrightarrow> yesPrice kl = 35 / 100 \<longrightarrow>
        map (\<lambda>a. (spreadPercent a, spreadDirection a)) (crossLoop stamp index [match])
          = [(7, polymarket_higher)])"
  using btc_similarity btc_no_match crossLoop_btc_prices
  by (simp add: fst_detectSpreadOpportunities btc_snapshot btc_ranking)

theorem btc_scenario_needs_shared_words_witness:
  "polymarket \<lparr>polymarket = Some btcA, kalshi = Some btcTwin, similarity = 1\<rparr> = Some btcA
   \<and> kalshi \<lparr>polymarket = Some btcA, kalshi = Some btcTwin, similarity = 1\<rparr> = Some btcTwin
   \<and> yesPrice btcA = 42 / 100 \<and> yesPrice btcTwin = 35 / 100
   \<and> map (\<lambda>a. (spreadPercent a, spreadDirection a))
       (crossLoop [] 0 [\<lparr>polymarket = Some btcA, kalshi = Some btcTwin, similarity = 1\<rparr>])
       = [(7, polymarket_higher)]"
proof -
  have a: "yesPrice btcA = 42 / 100" by (simp add: btcA_def)
  have b: "yesPrice btcTwin = 35 / 100" by (simp add: btcTwin_def btcB_def)
  from a b show ?thesis
    using btc_scenario_needs_shared_words
      [of "[]" 0 "\<lparr>polymarket = Some btcA, kalshi = Some btcTwin, similarity = 1\<rparr>"
          btcA btcTwin 0]
    by simp
qed

text \<open>
  The claim as stated fails on the two titles: their similarity is not above 0.4, no pair
  is formed, and no entry of the result has the identifier \<open>spread-0\<close> of a first pair.
\<close>

theorem btc_titles_are_not_paired:
  "\<not> calculateSimilarity ''Will BTC hit $150k?'' ''Bitcoin to exceed $150,000'' > 4 / 10
   \<and> findMatchingMarkets [btcA, btcB] = []
   \<and> ''spread-0'' \<notin> set (map spread_id
         (fst (detectSpreadOpportunities [] 0 [btcA] [btcB] [btcA] initialApiState)))"
  by code_simp

section \<open>Direction of a spread\<close>

lemma rankSpreads_subset:
  "set (rankSpreads stamp markets) \<subseteq>
     set (mockSpreads stamp) \<union> set (crossLoop stamp 0 (findMatchingMarkets markets))
       \<union> set (singlePlatformSpreads stamp markets)"
proof -
  have "set (rankSpreads stamp markets) \<subseteq>
          set (sortBySpreadDesc (mockSpreads stamp @ crossOpportunities stamp markets
                 @ singlePlatformSpreads stamp markets))"
    unfolding rankSpreads_def by (rule set_take_subset)
  then show ?thesis
    by (simp add: set_sortBySpreadDesc crossOpportunities_def Un_assoc)
qed

text \<open>An entry pushed by the loop over the matches carries both prices, at least two
  points apart, and the direction of the conditional.\<close>

lemma crossLoop_direction:
  "a \<in> set (crossLoop stamp index matches) \<Longrightarrow>
   \<exists>p k. polymarketYesPrice a = Some p \<and> kalshiYesPrice a = Some k \<and> \<bar>p - k\<bar> * 100 \<ge> 2
       \<and> spreadDirection a = crossDirection p k"
proof (induction matches arbitrary: index)
  case Nil
  then show ?case by simp
next
  case (Cons match rest)
  show ?case
  proof (cases "polymarket match")
    case None
    with Cons show ?thesis by simp
  next
    case pm: (Some pm)
    show ?thesis
    proof (cases "kalshi match")
      case None
      with pm Cons show ?thesis by simp
    next
      case kl: (Some kl)
      show ?thesis
      proof (cases "\<bar>yesPrice pm - yesPrice kl\<bar> * 100 < 2")
        case True
        with pm kl Cons.prems have "a \<in> set (crossLoop stamp (Suc index) rest)"
          by (simp add: Let_def)
        then show ?thesis by (rule Cons.IH)
      next
        case False
        with pm kl Cons.prems consider
            (here) "polymarketYesPrice a = Some (yesPrice pm)"
              "kalshiYesPrice a = Some (yesPrice kl)"
              "spreadDirection a = crossDirection (yesPrice pm) (yesPrice kl)"
          | (later) "a \<in> set (crossLoop stamp (Suc index) rest)"
          by (auto simp: Let_def)
        then show ?thesis
        proof cases
          case here
          with False show ?thesis by simp
        next
          case later
          then show ?thesis by (rule Cons.IH)
        qed
      qed
    qed
  qed
qed

lemma singlePlatformSpreads_one_sided:
  "a \<in> set (singlePlatformSpreads stamp markets) \<Longrightarrow>
   polymarketYesPrice a = None \<or> kalshiYesPrice a = None"
  by (auto simp: singlePlatformSpreads_def)

lemma mockSpreads_direction_all:
  "list_all (\<lambda>a. case (polymarketYesPrice a, kalshiYesPrice a) of
                    (Some p, Some k) \<Rightarrow>
                      \<bar>p - k\<bar> * 100 \<ge> 2 \<and> spreadDirection a = crossDirection p k
                  | _ \<Rightarrow> False)
     (mockSpreads stamp)"
  by (simp add: mockSpreads_def crossDirection_def)

lemma mockSpreads_direction:
  assumes "a \<in> set (mockSpreads stamp)"
  shows "\<exists>p k. polymarketYesPrice a = Some p \<and> kalshiYesPrice a = Some k \<and> \<bar>p - k\<bar> * 100 \<ge> 2
       \<and> spreadDirection a = crossDirection p k"
proof -
  from mockSpreads_direction_all [of stamp] assms
  have "case (polymarketYesPrice a, kalshiYesPrice a) of
          (Some p, Some k) \<Rightarrow> \<bar>p - k\<bar> * 100 \<ge> 2 \<and> spreadDirection a = crossDirection p k
        | _ \<Rightarrow> False"
    by (simp add: list_all_iff)
  then show ?thesis by (auto split: option.splits)
qed

lemma crossDirection_strict:
  "\<bar>p - k\<bar> * 100 \<ge> 2 \<Longrightarrow>
   p \<noteq> k \<and> (crossDirection p k = polymarket_higher \<longleftrightarrow> p > k)
         \<and> (crossDirection p k = kalshi_higher \<longleftrightarrow> k > p)"
  by (auto simp: crossDirection_def)

lemma btc_twin_entry:
  "map (\<lambda>a. (spread_id a, polymarketYesPrice a, kalshiYesPrice a, spreadDirection a))
     (fst (detectSpreadOpportunities [] 0 [btcA] [btcTwin] [btcA] initialApiState)) ! 5
   = (''spread-0'', Some (42 / 100), Some (35 / 100), polymarket_higher)
   \<and> length (fst (detectSpreadOpportunities [] 0 [btcA] [btcTwin] [btcA] initialApiState)) = 9"
  by code_simp


lemma tied_pair_dropped: "crossLoop [] 0 [tiedMatch] = []"
  by (simp add: tiedMatch_def btcA_def btcB_def Let_def)

text \<open>
  Claim C9. In every entry of the result that carries a price of both sources, as the
  entries made from matched pairs do, \<open>spreadDirection\<close> names the side whose price is
  higher. The two prices of such an entry are never equal, since a pair less than two
  points apart is dropped before its direction is computed; so the rule for equal prices,
  source A higher, holds of every reported entry as well.
\<close>

theorem spreadDirection_names_higher_side:
  assumes "a \<in> set (fst (detectSpreadOpportunities stamp now polymarketMarkets kalshiMarkets
                           polymarketCached s))"
    and "polymarketYesPrice a = Some p" and "kalshiYesPrice a = Some k"
  shows "(p > k \<longrightarrow> spreadDirection a = polymarket_higher)
         \<and> (k > p \<longrightarrow> spreadDirection a = kalshi_higher)
         \<and> (p = k \<longrightarrow> spreadDirection a = polymarket_higher)
         \<and> p \<noteq> k
         \<and> (spreadDirection a = polymarket_higher \<longleftrightarrow> p > k)
         \<and> (spreadDirection a = kalshi_higher \<longleftrightarrow> k > p)"
proof -
  let ?markets = "getCachedMarkets polymarketCached
                    (snd (fetchAllMarkets now polymarketMarkets kalshiMarkets s))"
  from assms(1) have "a \<in> set (rankSpreads stamp ?markets)"
    by (simp add: fst_detectSpreadOpportunities)
  with rankSpreads_subset
  have "a \<in> set (mockSpreads stamp)
        \<or> a \<in> set (crossLoop stamp 0 (findMatchingMarkets ?markets))
        \<or> a \<in> set (singlePlatformSpreads stamp ?markets)"
    by blast
  with assms(2,3) singlePlatformSpreads_one_sided [of a stamp ?markets]
  have "a \<in> set (mockSpreads stamp)
        \<or> a \<in> set (crossLoop stamp 0 (findMatchingMarkets ?markets))"
    by auto
  then have "\<bar>p - k\<bar> * 100 \<ge> 2 \<and> spreadDirection a = crossDirection p k"
    using mockSpreads_direction [of a stamp]
      crossLoop_direction [of a stamp 0 "findMatchingMarkets ?markets"] assms(2,3)
    by auto
  then show ?thesis using crossDirection_strict [of p k] by auto
qed

theorem spreadDirection_names_higher_side_witness:
  "spread_id (fst (detectSpreadOpportunities [] 0 [btcA] [btcTwin] [btcA] initialApiState) ! 5)
     = ''spread-0''
   \<and> polymarketYesPrice
       (fst (detectSpreadOpportunities [] 0 [btcA] [btcTwin] [btcA] initialApiState) ! 5)
     = Some (42 / 100)
   \<and> kalshiYesPrice
       (fst (detectSpreadOpportunities [] 0 [btcA] [btcTwin] [btcA] initialApiState) ! 5)
     = Some (35 / 100)
   \<and> spreadDirection
       (fst (detectSpreadOpportunities [] 0 [btcA] [btcTwin] [btcA] initialApiState) ! 5)
     = polymarket_higher
   \<and> (35 / 100 :: rat) < 42 / 100
   \<and> crossLoop [] 0 [tiedMatch] = []"
proof -
  let ?out = "fst (detectSpreadOpportunities [] 0 [btcA] [btcTwin] [btcA] initialApiState)"
  from btc_twin_entry have len: "length ?out = 9" by blast
  then have mem: "?out ! 5 \<in> set ?out" by simp
  from btc_twin_entry len
  have e: "spread_id (?out ! 5) = ''spread-0''"
     "polymarketYesPrice (?out ! 5) = Some (42 / 100)"
     "kalshiYesPrice (?out ! 5) = Some (35 / 100)"
    by simp_all
  from spreadDirection_names_higher_side [OF mem e(2) e(3)] e tied_pair_dropped
  show ?thesis by simp
qed


section \<open>Live feed: messages\<close>

text \<open>A message either leaves the state as it is, or it is a trade for an indexed slug
  and a cached record, with a price strictly between 0 and 1, and only that record's
  two prices change.\<close>

lemma handleRTDSMessage_cases:
  "handleRTDSMessage m s = s \<or>
   (\<exists>p marketId market x.
      payload m = Some p \<and> slugToMarketId s (market_slug p) = Some marketId \<and>
      marketCache s marketId = Some market \<and> price p = Some (Fin x) \<and> 0 < x \<and> x < 1 \<and>
      handleRTDSMessage m s =
        s\<lparr>marketCache := (marketCache s)(marketId \<mapsto>
             (if outcome p = ''Yes'' \<or> outcome p = ''yes''
              then market\<lparr>yesPrice := x, noPrice := js_sub 1 x\<rparr>
              else market\<lparr>noPrice := x, yesPrice := js_sub 1 x\<rparr>))\<rparr>)"
  unfolding handleRTDSMessage_def Let_def
  by (auto split: option.splits jsnum.splits)

lemma handleRTDSMessage_reconnect:
  "reconnectAttempts (handleRTDSMessage m s) = reconnectAttempts s \<and>
   scheduled (handleRTDSMessage m s) = scheduled s"
  using handleRTDSMessage_cases [of m s] by auto

lemma pricedState_lookup:
  "slugToMarketId pricedState ''btc-150k'' = Some ''pm-btc''
   \<and> slugToMarketId pricedState ''eth-10k'' = None
   \<and> dom (marketCache pricedState) = {''pm-btc''}"
  by (simp add: pricedState_def initialWsState_def)

text \<open>
  Claim C6. A trade message whose slug is not in the slug index, or whose price is not
  strictly between 0 and 1, leaves the state unchanged, and with it the market cache: no
  record is added and no price of a cached record changes.
\<close>

theorem handleRTDSMessage_drops_unknown_and_out_of_range:
  assumes "payload message = Some p"
    and "slugToMarketId s (market_slug p) = None
         \<or> (\<forall>x. price p = Some (Fin x) \<longrightarrow> \<not> (0 < x \<and> x < 1))"
  shows "handleRTDSMessage message s = s
         \<and> marketCache (handleRTDSMessage message s) = marketCache s
         \<and> dom (marketCache (handleRTDSMessage message s)) = dom (marketCache s)"
  using assms handleRTDSMessage_cases [of message s] by auto

theorem handleRTDSMessage_drops_unknown_and_out_of_range_witness:
  "slugToMarketId pricedState ''eth-10k'' = None
   \<and> handleRTDSMessage (trade ''eth-10k'' (1 / 4)) pricedState = pricedState
   \<and> slugToMarketId pricedState ''btc-150k'' = Some ''pm-btc''
   \<and> handleRTDSMessage (trade ''btc-150k'' (3 / 2)) pricedState = pricedState
   \<and> handleRTDSMessage (trade ''btc-150k'' 1) pricedState = pricedState
   \<and> dom (marketCache (handleRTDSMessage (trade ''eth-10k'' (1 / 4)) pricedState)) = {''pm-btc''}"
proof -
  have unknown: "handleRTDSMessage (trade ''eth-10k'' (1 / 4)) pricedState = pricedState"
    using handleRTDSMessage_drops_unknown_and_out_of_range
      [of "trade ''eth-10k'' (1 / 4)" "the (payload (trade ''eth-10k'' (1 / 4)))" pricedState]
      pricedState_lookup
    by (simp add: trade_def)
  have high: "handleRTDSMessage (trade ''btc-150k'' (3 / 2)) pricedState = pricedState"
    using handleRTDSMessage_drops_unknown_and_out_of_range
      [of "trade ''btc-150k'' (3 / 2)" "the (payload (trade ''btc-150k'' (3 / 2)))" pricedState]
    by (simp add: trade_def)
  have one: "handleRTDSMessage (trade ''btc-150k'' 1) pricedState = pricedState"
    using handleRTDSMessage_drops_unknown_and_out_of_range
      [of "trade ''btc-150k'' 1" "the (payload (trade ''btc-150k'' 1))" pricedState]
    by (simp add: trade_def)
  from unknown high one pricedState_lookup show ?thesis by simp
qed

section \<open>Live feed: reconnection\<close>

lemma scheduleReconnect_below_cap:
  "reconnectAttempts s < MAX_RECONNECT_ATTEMPTS \<Longrightarrow>
   scheduleReconnect s =
     s\<lparr>reconnectAttempts := reconnectAttempts s + 1,
       scheduled := scheduled s @ [5000 * (reconnectAttempts s + 1)]\<rparr>"
  by (simp add: scheduleReconnect_def Let_def RECONNECT_DELAY_def)

lemma scheduleReconnect_at_cap:
  "reconnectAttempts s \<ge> MAX_RECONNECT_ATTEMPTS \<Longrightarrow> scheduleReconnect s = s"
  by (simp add: scheduleReconnect_def)

lemma wsStep_capped:
  assumes "e \<noteq> SocketOpen" "reconnectAttempts s \<ge> MAX_RECONNECT_ATTEMPTS"
  shows "reconnectAttempts (wsStep e s) = reconnectAttempts s
         \<and> scheduled (wsStep e s) = scheduled s"
proof (cases e)
  case SocketOpen
  with assms show ?thesis by simp
next
  case SocketClose
  with assms show ?thesis by (simp add: onClose_def scheduleReconnect_def)
next
  case (SocketMessage m)
  then show ?thesis by (simp add: handleRTDSMessage_reconnect)
next
  case (Connect b)
  with assms show ?thesis by (simp add: connectWebSocket_def scheduleReconnect_def)
qed

lemma wsRun_capped:
  "SocketOpen \<notin> set es \<Longrightarrow> reconnectAttempts s \<ge> MAX_RECONNECT_ATTEMPTS \<Longrightarrow>
   reconnectAttempts (wsRun es s) = reconnectAttempts s \<and> scheduled (wsRun es s) = scheduled s"
proof (induction es arbitrary: s)
  case Nil
  then show ?case by (simp add: wsRun_def)
next
  case (Cons e es)
  from Cons.prems have e: "e \<noteq> SocketOpen" and es: "SocketOpen \<notin> set es" by auto
  from wsStep_capped [OF e Cons.prems(2)]
  have st: "reconnectAttempts (wsStep e s) = reconnectAttempts s"
    "scheduled (wsStep e s) = scheduled s"
    by simp_all
  with Cons.prems(2) have "reconnectAttempts (wsStep e s) \<ge> MAX_RECONNECT_ATTEMPTS" by simp
  from Cons.IH [OF es this] st show ?case by (simp add: wsRun_def)
qed

lemma fiveFailures_run:
  "reconnectAttempts (wsRun fiveFailures initialWsState) = 5
   \<and> scheduled (wsRun fiveFailures initialWsState) = [5000, 10000, 15000, 20000, 25000]"
  by (simp add: fiveFailures_def wsRun_def initialWsState_def connectWebSocket_def onClose_def
      scheduleReconnect_def MAX_RECONNECT_ATTEMPTS_def RECONNECT_DELAY_def Let_def)

text \<open>
  Claim C5, as the code has it. Below the cap, \<open>scheduleReconnect\<close> counts the attempt and
  schedules one reconnect after 5000 ms times the new attempt number; the \<open>open\<close> handler
  sets the counter to zero; the cap is 5, and with the counter at the cap
  \<open>scheduleReconnect\<close> does nothing. From a state at the cap, as long as no connection
  opens, no event schedules a reconnect or changes the counter.
\<close>

theorem reconnect_backoff_until_open:
  "(reconnectAttempts s < MAX_RECONNECT_ATTEMPTS \<longrightarrow>
      scheduleReconnect s =
        s\<lparr>reconnectAttempts := reconnectAttempts s + 1,
          scheduled := scheduled s @ [5000 * (reconnectAttempts s + 1)]\<rparr>)
   \<and> reconnectAttempts (onOpen s) = 0
   \<and> MAX_RECONNECT_ATTEMPTS = 5
   \<and> (reconnectAttempts s \<ge> 5 \<longrightarrow> scheduleReconnect s = s)
   \<and> (reconnectAttempts s \<ge> 5 \<longrightarrow> SocketOpen \<notin> set events \<longrightarrow>
        scheduled (wsRun events s) = scheduled s
        \<and> reconnectAttempts (wsRun events s) = reconnectAttempts s)"
proof -
  have cap: "MAX_RECONNECT_ATTEMPTS = 5" by (simp add: MAX_RECONNECT_ATTEMPTS_def)
  have opened: "reconnectAttempts (onOpen s) = 0" by (simp add: onOpen_def)
  from cap opened scheduleReconnect_below_cap [of s] scheduleReconnect_at_cap [of s]
    wsRun_capped [of events s]
  show ?thesis by simp
qed

theorem reconnect_backoff_until_open_witness:
  "reconnectAttempts initialWsState < MAX_RECONNECT_ATTEMPTS
   \<and> scheduled (scheduleReconnect initialWsState) = [5000]
   \<and> reconnectAttempts (wsRun fiveFailures initialWsState) \<ge> 5
   \<and> SocketOpen \<notin> set [SocketClose, Connect True, Connect False, SocketClose]
   \<and> scheduled (wsRun [SocketClose, Connect True, Connect False, SocketClose]
        (wsRun fiveFailures initialWsState))
      = [5000, 10000, 15000, 20000, 25000]
   \<and> reconnectAttempts (onOpen (wsRun fiveFailures initialWsState)) = 0"
proof -
  have fresh: "reconnectAttempts initialWsState < MAX_RECONNECT_ATTEMPTS"
    by (simp add: initialWsState_def MAX_RECONNECT_ATTEMPTS_def)
  have first: "scheduled (scheduleReconnect initialWsState) = [5000]"
    using reconnect_backoff_until_open [of initialWsState "[]"] fresh
    by (simp add: initialWsState_def)
  have later: "scheduled (wsRun [SocketClose, Connect True, Connect False, SocketClose]
        (wsRun fiveFailures initialWsState)) = [5000, 10000, 15000, 20000, 25000]
      \<and> reconnectAttempts (onOpen (wsRun fiveFailures initialWsState)) = 0"
    using reconnect_backoff_until_open
      [of "wsRun fiveFailures initialWsState"
          "[SocketClose, Connect True, Connect False, SocketClose]"]
      fiveFailures_run
    by simp
  from fresh first later fiveFailures_run show ?thesis by simp
qed

text \<open>
  The claim as stated fails: after five failed attempts the counter is at the cap with
  the fifth reconnect still pending; when that attempt connects, the counter is reset, and
  the next \<open>close\<close> schedules a sixth reconnect.
\<close>

theorem reconnect_resumes_after_cap:
  "reconnectAttempts (wsRun fiveFailures initialWsState) = MAX_RECONNECT_ATTEMPTS
   \<and> scheduled (wsRun fiveFailures initialWsState) = [5000, 10000, 15000, 20000, 25000]
   \<and> scheduled (wsRun (fiveFailures @ [Connect False, SocketOpen, SocketClose]) initialWsState)
      = [5000, 10000, 15000, 20000, 25000, 5000]"
  by (simp add: fiveFailures_def wsRun_def initialWsState_def connectWebSocket_def onClose_def
      onOpen_def scheduleReconnect_def MAX_RECONNECT_ATTEMPTS_def RECONNECT_DELAY_def Let_def)

section \<open>Source-B adapter: failures\<close>

lemma filterOpen_null: "None \<in> set ms \<Longrightarrow> filterOpen ms = Inl TypeError"
  by (induction ms rule: filterOpen.induct) (auto split: sum.splits)

lemma filterOpen_objects:
  "filterOpen (map Some listings) =
     Inr (filter (\<lambda>m. status m = ''open'' \<or> status m = ''active'') listings)"
  by (induction listings) auto

lemma fetchKalshiMarkets_caught:
  "fetchKalshiMarkets_try fetched = Inl e \<Longrightarrow> fetchKalshiMarkets fetched = []"
  by (simp add: fetchKalshiMarkets_def)

lemma fetchKalshiMarkets_not_ok:
  "\<not> response_ok code \<Longrightarrow> fetchKalshiMarkets (Response code body) = []"
  by (simp add: fetchKalshiMarkets_def)

lemma fetchKalshiMarkets_bad_body:
  "fetchKalshiMarkets (Response code NotJson) = []"
  "fetchKalshiMarkets (Response code NoMarketsArray) = []"
  by (simp_all add: fetchKalshiMarkets_def)

lemma fetchKalshiMarkets_null_element:
  "None \<in> set ms \<Longrightarrow> fetchKalshiMarkets (Response code (MarketsArray ms)) = []"
  by (simp add: fetchKalshiMarkets_def filterOpen_null)

lemma fetchKalshiMarkets_success:
  "response_ok code \<Longrightarrow>
   fetchKalshiMarkets (Response code (MarketsArray (map Some listings))) =
     map kalshiToMarket (filter (\<lambda>m. status m = ''open'' \<or> status m = ''active'') listings)"
  by (simp add: fetchKalshiMarkets_def filterOpen_objects)

text \<open>
  Claim C8. \<open>fetchKalshiMarkets\<close> returns a list in every case. Whenever its \<open>try\<close> block
  throws, it returns the empty list: so for a rejected request, a response whose status
  is not 2xx, a body that is not JSON or has no \<open>markets\<close> array, and an array with a
  \<open>null\<close> element. On a 2xx response with an array of listings it returns the records of
  exactly the listings whose status is \<open>open\<close> or \<open>active\<close>, in their order.
\<close>

theorem fetchKalshiMarkets_never_throws:
  "(\<forall>e. fetchKalshiMarkets_try fetched = Inl e \<longrightarrow> fetchKalshiMarkets fetched = [])
   \<and> fetchKalshiMarkets Rejected = []
   \<and> (\<not> response_ok code \<longrightarrow> fetchKalshiMarkets (Response code body) = [])
   \<and> fetchKalshiMarkets (Response code NotJson) = []
   \<and> fetchKalshiMarkets (Response code NoMarketsArray) = []
   \<and> (None \<in> set ms \<longrightarrow> fetchKalshiMarkets (Response code (MarketsArray ms)) = [])
   \<and> (response_ok code \<longrightarrow>
        fetchKalshiMarkets (Response code (MarketsArray (map Some listings))) =
          map kalshiToMarket
            (filter (\<lambda>m. status m = ''open'' \<or> status m = ''active'') listings))"
proof -
  have rejected: "fetchKalshiMarkets Rejected = []"
    by (simp add: fetchKalshiMarkets_def)
  from rejected fetchKalshiMarkets_caught [of fetched] fetchKalshiMarkets_not_ok [of code body]
    fetchKalshiMarkets_bad_body [of code] fetchKalshiMarkets_null_element [of ms code]
    fetchKalshiMarkets_success [of code listings]
  show ?thesis by blast
qed

theorem fetchKalshiMarkets_never_throws_witness:
  "fetchKalshiMarkets_try (Response 503 NotJson) = Inl (HttpError 503)
   \<and> fetchKalshiMarkets (Response 503 NotJson) = []
   \<and> \<not> response_ok 503
   \<and> None \<in> set [Some openListing, None]
   \<and> fetchKalshiMarkets (Response 200 (MarketsArray [Some openListing, None])) = []
   \<and> response_ok 200
   \<and> map market_id (fetchKalshiMarkets
        (Response 200 (MarketsArray (map Some [settledListing, openListing]))))
      = [''kl-BTC-150K'']"
proof -
  have t: "fetchKalshiMarkets_try (Response 503 NotJson) = Inl (HttpError 503)"
    by (simp add: response_ok_def)
  have bad: "\<not> response_ok 503" and ok: "response_ok 200"
    by (simp_all add: response_ok_def)
  have f: "filter (\<lambda>m. status m = ''open'' \<or> status m = ''active'') [settledListing, openListing]
             = [openListing]"
    by (simp add: settledListing_def openListing_def)
  have i: "market_id (kalshiToMarket openListing) = ''kl-BTC-150K''"
    by (simp add: kalshiToMarket_def Let_def openListing_def)
  from fetchKalshiMarkets_never_throws
    [of "Response 503 NotJson" 503 NotJson "[Some openListing, None]"]
  have a: "fetchKalshiMarkets (Response 503 NotJson) = []" by blast
  from fetchKalshiMarkets_never_throws
    [of "Response 503 NotJson" 200 NotJson "[Some openListing, None]"
        "[settledListing, openListing]"] ok
  have b: "fetchKalshiMarkets (Response 200 (MarketsArray [Some openListing, None])) = []"
    and c: "fetchKalshiMarkets
              (Response 200 (MarketsArray (map Some [settledListing, openListing])))
            = map kalshiToMarket
                (filter (\<lambda>m. status m = ''open'' \<or> status m = ''active'')
                   [settledListing, openListing])"
    by simp_all
  from t bad ok a b c f i show ?thesis by simp
qed

section \<open>Price ranges at ingestion and after a live patch\<close>



























end
